theory Spec2Isabelle
  imports Complex_Main "HOL-Library.Log_Nat"
begin

section \<open>Python values shared by the scaling modules\<close>

text \<open>
  The three modules under \<open>examples/scaling\<close> are embedded: \<open>ai_scaling_engine.py\<close>,
  \<open>k8s_hpa_manager.py\<close> and \<open>schedule_generator.py\<close>.  Python ints are \<open>int\<close>, a
  Python float is the real number it denotes, with every float operation rounded to double
  precision, and an exception is the left summand of a sum type.  Wall-clock timestamps
  and the tracing and metric calls, which influence no returned value, are left out.
\<close>

datatype py_error =
    ZeroDivisionError
  | ValueError string
  | TypeError
  | KeyError

text \<open>\<open>int(x)\<close> on a float truncates toward zero.\<close>

definition py_int :: "real \<Rightarrow> int" where
  "py_int x = (if 0 \<le> x then \<lfloor>x\<rfloor> else \<lceil>x\<rceil>)"

subsection \<open>Double-precision arithmetic\<close>

text \<open>
  A Python float is an IEEE 754 binary64 number: 53 significant bits, and below
  \<open>pow2 (- 1022)\<close> a fixed spacing of \<open>pow2 (- 1074)\<close>.  Sum, difference, product and
  quotient of two floats are the exact results rounded to the nearest double, ties to the
  even significand; \<open>rnd\<close> is that rounding.  Results of magnitude \<open>pow2 1024\<close> and
  above, where Python yields an infinity or raises \<open>OverflowError\<close>, and the values
  \<open>inf\<close> and \<open>nan\<close> are outside the model.
\<close>

definition pow2 :: "int \<Rightarrow> real" where
  "pow2 k = (if 0 \<le> k then 2 ^ nat k else 1 / 2 ^ nat (- k))"

text \<open>The exponent \<open>e\<close> of a positive number: \<open>pow2 e \<le> a < pow2 (e + 1)\<close>.\<close>

definition binary_exponent :: "real \<Rightarrow> int" where
  "binary_exponent a =
     (if 1 \<le> a then bitlen \<lfloor>a\<rfloor> - 1 else - bitlen (\<lceil>1 / a\<rceil> - 1))"

definition round_half_even :: "real \<Rightarrow> int" where
  "round_half_even q =
     (let f = \<lfloor>q\<rfloor>; d = q - real_of_int f
      in if d < 1 / 2 then f else if 1 / 2 < d then f + 1
         else if even f then f else f + 1)"

definition rnd :: "real \<Rightarrow> real" where
  "rnd x =
     (if x = 0 then 0
      else
        let e = max (binary_exponent \<bar>x\<bar>) (- 1022);
            ulp = pow2 (e - 52)
        in real_of_int (round_half_even (x / ulp)) * ulp)"

definition fadd :: "real \<Rightarrow> real \<Rightarrow> real" where
  "fadd x y = rnd (x + y)"

definition fsub :: "real \<Rightarrow> real \<Rightarrow> real" where
  "fsub x y = rnd (x - y)"

definition fmul :: "real \<Rightarrow> real \<Rightarrow> real" where
  "fmul x y = rnd (x * y)"

text \<open>The quotient for a divisor other than zero; the callers test for zero first.\<close>

definition fdiv :: "real \<Rightarrow> real \<Rightarrow> real" where
  "fdiv x y = rnd (x / y)"

text \<open>
  \<open>float(n)\<close>, the conversion an int undergoes in an operation with a float; the true
  division \<open>a / b\<close> of two ints, which is correctly rounded; and a decimal literal such
  as \<open>0.7\<close>, read as the double nearest to \<open>7 / 10\<close>.
\<close>

definition py_float :: "int \<Rightarrow> real" where
  "py_float n = rnd (real_of_int n)"

definition int_truediv :: "int \<Rightarrow> int \<Rightarrow> real" where
  "int_truediv a b = rnd (real_of_int a / real_of_int b)"

definition decimal :: "int \<Rightarrow> int \<Rightarrow> real" where
  "decimal a b = rnd (real_of_int a / real_of_int b)"

text \<open>
  The builtin \<open>sum\<close> over floats is a parameter \<open>py_sum\<close> of the definitions that call
  it: up to Python 3.11 it adds from left to right, starting from the int 0 and rounding
  after every addition, from Python 3.12 on it uses compensated summation, and the two can
  differ in the last bit.  \<open>py_sum_left_to_right\<close> is the former.  The sum of ints is
  exact.
\<close>

definition py_sum_left_to_right :: "real list \<Rightarrow> real" where
  "py_sum_left_to_right xs = foldl fadd 0 xs"

section \<open>ai_scaling_engine.py\<close>

record ScalingMetrics =
  cpu_utilization :: real
  memory_utilization :: real
  request_rate :: real
  response_time_ms :: real
  error_rate :: real
  active_connections :: int
  queue_depth :: int
  current_pod_count :: int

record ScalingDecision =
  action :: string
  recommended_pod_count :: "int option"
  recommended_memory_increase :: "string option"
  recommended_cpu_increase :: "string option"
  confidence :: real
  reasoning :: string
  urgency :: string
  estimated_cost_impact :: "string option"

text \<open>The constructor's defaults for the keyword arguments a call leaves out.\<close>

definition ScalingDecision_init :: "string \<Rightarrow> ScalingDecision" where
  "ScalingDecision_init a =
     \<lparr> action = a, recommended_pod_count = None, recommended_memory_increase = None,
       recommended_cpu_increase = None, confidence = 0, reasoning = [],
       urgency = ''normal'', estimated_cost_impact = None \<rparr>"

text \<open>
  \<open>AIScalingEngine._rule_based_decision\<close>.  The scale-down count is
  \<open>int(current_pod_count * 0.7)\<close> with the double product.  In the scale-up count the
  product \<open>current_pod_count * 1.5\<close> is exact in doubles for every pod count of
  magnitude below \<open>2 ^ 51\<close> and is written as the exact product.  The thresholds are
  ints, and comparing a float with an int is exact.
\<close>

definition rule_based_decision :: "ScalingMetrics \<Rightarrow> ScalingDecision" where
  "rule_based_decision metrics =
     (if cpu_utilization metrics > 80 \<or> memory_utilization metrics > 85 then
        (if memory_utilization metrics > 90 then
           (ScalingDecision_init ''scale_up_vertical'')
             \<lparr> recommended_memory_increase := Some ''50%'',
               confidence := 0.85,
               reasoning := ''Memory utilization >90%, vertical scaling recommended'',
               urgency := ''high'' \<rparr>
         else
           (ScalingDecision_init ''scale_up_horizontal'')
             \<lparr> recommended_pod_count :=
                 Some (py_int (real_of_int (current_pod_count metrics) * 1.5)),
               confidence := 0.80,
               reasoning := ''High CPU/memory utilization detected'',
               urgency := ''high'' \<rparr>)
      else if cpu_utilization metrics < 20 \<and> memory_utilization metrics < 30
              \<and> current_pod_count metrics > 2 then
        (ScalingDecision_init ''scale_down_horizontal'')
          \<lparr> recommended_pod_count :=
              Some (max 2 (py_int (fmul (py_float (current_pod_count metrics))
                                        (decimal 7 10)))),
            confidence := 0.75,
            reasoning := ''Low resource utilization, system over-provisioned'',
            urgency := ''low'' \<rparr>
      else
        (ScalingDecision_init ''maintain'')
          \<lparr> recommended_pod_count := Some (current_pod_count metrics),
            confidence := 0.90,
            reasoning := ''All metrics within acceptable ranges'',
            urgency := ''normal'' \<rparr>)"

subsection \<open>Trend context for the reasoning backend\<close>

text \<open>
  \<open>_calculate_trend\<close> returns a formatted string; the model keeps the case and the
  number that the string prints.  The division by the overall average has no guard in the
  source: when that average is zero, Python raises \<open>ZeroDivisionError\<close>.
\<close>

datatype trend =
    InsufficientData
  | Increasing real
  | Decreasing real
  | Stable

definition calculate_trend :: "(real list \<Rightarrow> real) \<Rightarrow> real list \<Rightarrow> py_error + trend" where
  "calculate_trend py_sum values =
     (if length values < 2 then Inr InsufficientData
      else
        let last3 = drop (length values - 3) values;
            recent_avg = fdiv (py_sum last3) (py_float (int (min 3 (length last3))));
            overall_avg = fdiv (py_sum values) (py_float (int (length values)))
        in if overall_avg = 0 then Inl ZeroDivisionError
           else
             let diff_percent =
                   fmul (fdiv (fsub recent_avg overall_avg) overall_avg) 100
             in if diff_percent > 10 then Inr (Increasing diff_percent)
                else if diff_percent < - 10 then Inr (Decreasing \<bar>diff_percent\<bar>)
                else Inr Stable)"

text \<open>
  \<open>_prepare_ai_context\<close>: the three trends, computed in the source's order (cpu, memory,
  request rate), and the last five points.  \<open>None\<close> stands for the empty context string,
  returned when the history is absent or empty.
\<close>

record ai_context =
  cpu_trend :: trend
  memory_trend :: trend
  rps_trend :: trend
  recent_history :: "(real \<times> real \<times> real) list"

definition prepare_ai_context ::
  "(real list \<Rightarrow> real) \<Rightarrow> ScalingMetrics \<Rightarrow> ScalingMetrics list option
   \<Rightarrow> py_error + ai_context option" where
  "prepare_ai_context py_sum current_metrics historical_metrics =
     (case historical_metrics of
        None \<Rightarrow> Inr None
      | Some hist \<Rightarrow>
          if length hist > 0 then
            (case calculate_trend py_sum (map cpu_utilization hist) of
               Inl e \<Rightarrow> Inl e
             | Inr ct \<Rightarrow>
                 (case calculate_trend py_sum (map memory_utilization hist) of
                    Inl e \<Rightarrow> Inl e
                  | Inr mt \<Rightarrow>
                      (case calculate_trend py_sum (map request_rate hist) of
                         Inl e \<Rightarrow> Inl e
                       | Inr rt \<Rightarrow>
                           Inr (Some \<lparr> cpu_trend = ct, memory_trend = mt, rps_trend = rt,
                                  recent_history =
                                    map (\<lambda>m. (cpu_utilization m, memory_utilization m,
                                               request_rate m))
                                        (drop (length hist - 5) hist) \<rparr>))))
          else Inr None)"

subsection \<open>The reply of the reasoning backend\<close>

text \<open>
  The backend call and \<open>json.loads\<close> are external; both are parameters of the model.
  The backend sees the prompt, which is determined by the current metrics and the context;
  it either fails (any exception of the client, or a reply without text) or replies with a
  text.  \<open>json.loads\<close> maps a text to a JSON value or fails; \<open>JObject\<close> carries the
  items of the decoded dictionary, whose keys are distinct.
\<close>

datatype backend_reply =
    BackendFailure
  | ReplyText string

datatype json =
    JNull
  | JBool bool
  | JInt int
  | JFloat real
  | JString string
  | JArray "json list"
  | JObject "(string \<times> json) list"

text \<open>\<open>str.isspace\<close> on the characters below 256, \<open>str.strip\<close> and \<open>str.startswith\<close>.\<close>

definition is_py_space :: "char \<Rightarrow> bool" where
  "is_py_space c =
     (let n = of_char c :: nat
      in (9 \<le> n \<and> n \<le> 13) \<or> (28 \<le> n \<and> n \<le> 32) \<or> n = 133 \<or> n = 160)"

definition py_strip :: "string \<Rightarrow> string" where
  "py_strip s = rev (dropWhile is_py_space (rev (dropWhile is_py_space s)))"

definition startswith :: "string \<Rightarrow> string \<Rightarrow> bool" where
  "startswith s p = (take (length p) s = p)"

definition fence :: string where
  "fence = [CHR 0x60, CHR 0x60, CHR 0x60]"

text \<open>
  For a text that starts with the fence, element 1 of \<open>text.split(fence)\<close> is the text
  after that fence up to the next fence, or up to the end.
\<close>

fun until_fence :: "string \<Rightarrow> string" where
  "until_fence [] = []"
| "until_fence (c # cs) =
     (if startswith (c # cs) fence then [] else c # until_fence cs)"

definition strip_code_fence :: "string \<Rightarrow> string" where
  "strip_code_fence text =
     (let response_text = py_strip text
      in if startswith response_text fence then
           (let inner = until_fence (drop 3 response_text);
                inner' = (if startswith inner ''json'' then drop 4 inner else inner)
            in py_strip inner')
         else response_text)"

text \<open>
  \<open>decision_data.get(key, default)\<close> on the decoded object.  The fields of
  \<open>ScalingDecision\<close> are typed as the constructor annotates them; a decoded value of
  another type has no image in that record, and the getters below return \<open>None\<close> for it.
\<close>

definition get_str :: "(string \<times> json) list \<Rightarrow> string \<Rightarrow> string \<Rightarrow> string option" where
  "get_str d k dflt =
     (case map_of d k of None \<Rightarrow> Some dflt | Some (JString s) \<Rightarrow> Some s | Some _ \<Rightarrow> None)"

definition get_opt_str :: "(string \<times> json) list \<Rightarrow> string \<Rightarrow> string option option" where
  "get_opt_str d k =
     (case map_of d k of None \<Rightarrow> Some None | Some JNull \<Rightarrow> Some None
      | Some (JString s) \<Rightarrow> Some (Some s) | Some _ \<Rightarrow> None)"

definition get_opt_int :: "(string \<times> json) list \<Rightarrow> string \<Rightarrow> int option option" where
  "get_opt_int d k =
     (case map_of d k of None \<Rightarrow> Some None | Some JNull \<Rightarrow> Some None
      | Some (JInt n) \<Rightarrow> Some (Some n) | Some _ \<Rightarrow> None)"

definition get_float :: "(string \<times> json) list \<Rightarrow> string \<Rightarrow> real \<Rightarrow> real option" where
  "get_float d k dflt =
     (case map_of d k of None \<Rightarrow> Some dflt | Some (JFloat x) \<Rightarrow> Some x
      | Some (JInt n) \<Rightarrow> Some (real_of_int n) | Some _ \<Rightarrow> None)"

definition typed_decision :: "(string \<times> json) list \<Rightarrow> ScalingDecision option" where
  "typed_decision d =
     (case (get_str d ''action'' ''maintain'', get_opt_int d ''recommended_pod_count'',
            get_opt_str d ''recommended_memory_increase'',
            get_opt_str d ''recommended_cpu_increase'',
            get_float d ''confidence'' 0, get_str d ''reasoning'' [],
            get_str d ''urgency'' ''normal'', get_opt_str d ''estimated_cost_impact'') of
        (Some a, Some p, Some mi, Some ci, Some c, Some r, Some u, Some e) \<Rightarrow>
          Some \<lparr> action = a, recommended_pod_count = p, recommended_memory_increase = mi,
                 recommended_cpu_increase = ci, confidence = c, reasoning = r,
                 urgency = u, estimated_cost_impact = e \<rparr>
      | _ \<Rightarrow> None)"

text \<open>
  What \<open>analyze_metrics\<close> hands back: a decision whose fields have the annotated types, or
  the object Python builds from a decoded reply with a field of another type (kept as the
  decoded key-value list).
\<close>

datatype ai_decision =
    Typed ScalingDecision
  | Untyped "(string \<times> json) list"

record AIScalingEngine =
  client :: "(ScalingMetrics \<times> ai_context option \<Rightarrow> backend_reply) option"

text \<open>
  \<open>_ai_based_decision\<close>.  The context is prepared before the \<open>try\<close> block, so an
  exception there leaves the function; inside the block every exception (a failed call,
  undecodable text, a decoded value without \<open>get\<close>) leads to the rule-based decision.
\<close>

definition ai_based_decision ::
  "(real list \<Rightarrow> real) \<Rightarrow> (string \<Rightarrow> json option)
   \<Rightarrow> (ScalingMetrics \<times> ai_context option \<Rightarrow> backend_reply)
   \<Rightarrow> ScalingMetrics \<Rightarrow> ScalingMetrics list option \<Rightarrow> py_error + ai_decision" where
  "ai_based_decision py_sum loads backend current_metrics historical_metrics =
     (case prepare_ai_context py_sum current_metrics historical_metrics of
        Inl e \<Rightarrow> Inl e
      | Inr context \<Rightarrow>
          (case backend (current_metrics, context) of
             BackendFailure \<Rightarrow> Inr (Typed (rule_based_decision current_metrics))
           | ReplyText text \<Rightarrow>
               (case loads (strip_code_fence text) of
                  None \<Rightarrow> Inr (Typed (rule_based_decision current_metrics))
                | Some (JObject d) \<Rightarrow>
                    (case typed_decision d of
                       Some dec \<Rightarrow> Inr (Typed dec)
                     | None \<Rightarrow> Inr (Untyped d))
                | Some _ \<Rightarrow> Inr (Typed (rule_based_decision current_metrics)))))"

text \<open>
  \<open>analyze_metrics\<close>.  After the decision is made, its confidence is compared with 0.8
  and 0.5 for the counter label; the comparison raises \<open>TypeError\<close> when the confidence
  is not a number.
\<close>

definition confidence_comparable :: "(string \<times> json) list \<Rightarrow> bool" where
  "confidence_comparable d =
     (case map_of d ''confidence'' of
        None \<Rightarrow> True
      | Some (JInt _) \<Rightarrow> True
      | Some (JFloat _) \<Rightarrow> True
      | Some (JBool _) \<Rightarrow> True
      | Some _ \<Rightarrow> False)"

definition confidence_level :: "real \<Rightarrow> string" where
  "confidence_level c =
     (if c > decimal 8 10 then ''high'' else if c > 0.5 then ''medium'' else ''low'')"

definition analyze_metrics ::
  "(real list \<Rightarrow> real) \<Rightarrow> (string \<Rightarrow> json option) \<Rightarrow> AIScalingEngine \<Rightarrow> ScalingMetrics
   \<Rightarrow> ScalingMetrics list option \<Rightarrow> py_error + ai_decision" where
  "analyze_metrics py_sum loads engine current_metrics historical_metrics =
     (case client engine of
        None \<Rightarrow> Inr (Typed (rule_based_decision current_metrics))
      | Some backend \<Rightarrow>
          (case ai_based_decision py_sum loads backend current_metrics
                  historical_metrics of
             Inl e \<Rightarrow> Inl e
           | Inr (Typed dec) \<Rightarrow> Inr (Typed dec)
           | Inr (Untyped d) \<Rightarrow>
               if confidence_comparable d then Inr (Untyped d) else Inl TypeError))"

section \<open>k8s_hpa_manager.py\<close>

record HPAConfiguration =
  name :: string
  namespace :: string
  min_replicas :: int
  max_replicas :: int
  target_cpu_utilization :: int
  target_memory_utilization :: int

text \<open>\<open>HPAConfiguration.__init__\<close>: the four checks, in the source's order.\<close>

definition HPAConfiguration_init ::
  "string \<Rightarrow> string \<Rightarrow> int \<Rightarrow> int \<Rightarrow> int \<Rightarrow> int \<Rightarrow> py_error + HPAConfiguration" where
  "HPAConfiguration_init nm ns mn mx tc tm =
     (if mn < 1 then Inl (ValueError ''min_replicas must be at least 1'')
      else if mx < mn then Inl (ValueError ''max_replicas must be >= min_replicas'')
      else if \<not> (1 \<le> tc \<and> tc \<le> 100) then
        Inl (ValueError ''target_cpu_utilization must be between 1 and 100'')
      else if \<not> (1 \<le> tm \<and> tm \<le> 100) then
        Inl (ValueError ''target_memory_utilization must be between 1 and 100'')
      else Inr \<lparr> name = nm, namespace = ns, min_replicas = mn, max_replicas = mx,
                 target_cpu_utilization = tc, target_memory_utilization = tm \<rparr>)"

text \<open>The conditions the constructor enforces, as a predicate on a configuration.\<close>

definition hpa_valid :: "HPAConfiguration \<Rightarrow> bool" where
  "hpa_valid c =
     (1 \<le> min_replicas c \<and> min_replicas c \<le> max_replicas c
      \<and> 1 \<le> target_cpu_utilization c \<and> target_cpu_utilization c \<le> 100
      \<and> 1 \<le> target_memory_utilization c \<and> target_memory_utilization c \<le> 100)"

text \<open>
  The dictionary \<open>_apply_decision_to_hpa\<close> returns.  \<open>changes\<close> is a dictionary from
  a field name to its old and new value, kept in insertion order; \<open>note\<close> (here
  \<open>result_note\<close>) and
  \<open>recommendation\<close> are keys that only some branches set.
\<close>

record replica_change =
  old_value :: int
  new_value :: int

record update_result =
  hpa_name :: string
  decision :: ScalingDecision
  changes :: "(string \<times> replica_change) list"
  applied :: bool
  result_dry_run :: bool
  result_note :: "string option"
  recommendation :: "(string option \<times> string option) option"

record K8sHPAManager =
  dry_run :: bool
  applied_changes :: "update_result list"

text \<open>
  \<open>if decision.recommended_pod_count:\<close> passes exactly for an int other than 0
  (\<open>None\<close> and 0 are false); \<open>truthy_count\<close> returns the count when the test passes.
\<close>

definition truthy_count :: "int option \<Rightarrow> int option" where
  "truthy_count v = (case v of None \<Rightarrow> None | Some n \<Rightarrow> if n \<noteq> 0 then Some n else None)"

text \<open>
  \<open>_apply_decision_to_hpa\<close>.  The configuration object is mutated in place and the
  manager's list grows, so the model returns the result, the configuration and the manager
  after the call.  \<open>_apply_hpa_to_cluster\<close> runs an external command and returns a
  boolean (it catches every exception itself); it is the parameter \<open>apply_to_cluster\<close>.
  The source's third parameter, the current metrics, is never read and is left out.
  \<open>recommended_pod_count * 0.5\<close> is exact in doubles for every count of magnitude
  below \<open>2 ^ 53\<close> and is written as the exact product.
\<close>

definition apply_decision_to_hpa ::
  "(HPAConfiguration \<Rightarrow> bool) \<Rightarrow> K8sHPAManager \<Rightarrow> HPAConfiguration \<Rightarrow> ScalingDecision
   \<Rightarrow> update_result \<times> HPAConfiguration \<times> K8sHPAManager" where
  "apply_decision_to_hpa apply_to_cluster mgr hpa_config dec =
     (let result0 = \<lparr> hpa_name = name hpa_config, decision = dec, changes = [],
                       applied = False, result_dry_run = dry_run mgr, result_note = None,
                       recommendation = None \<rparr>;
          original_min = min_replicas hpa_config;
          original_max = max_replicas hpa_config;
          (result1, config1) =
            (if action dec = ''scale_up_horizontal'' then
               (case truthy_count (recommended_pod_count dec) of
                  Some rec \<Rightarrow>
                  (let new_max = max (rec + 5) (max_replicas hpa_config);
                       new_min = max (min_replicas hpa_config)
                                     (py_int (real_of_int rec * 0.5))
                   in (result0 \<lparr> changes :=
                          [(''min_replicas'',
                              \<lparr> old_value = original_min, new_value = new_min \<rparr>),
                           (''max_replicas'',
                              \<lparr> old_value = original_max, new_value = new_max \<rparr>)] \<rparr>,
                       hpa_config \<lparr> min_replicas := new_min, max_replicas := new_max \<rparr>))
                | None \<Rightarrow> (result0, hpa_config))
             else if action dec = ''scale_down_horizontal'' then
               (case truthy_count (recommended_pod_count dec) of
                  Some rec \<Rightarrow>
                  (let new_max = rec + 3;
                       new_min = max 2 (rec - 1)
                   in (result0 \<lparr> changes :=
                          [(''min_replicas'',
                              \<lparr> old_value = original_min, new_value = new_min \<rparr>),
                           (''max_replicas'',
                              \<lparr> old_value = original_max, new_value = new_max \<rparr>)] \<rparr>,
                       hpa_config \<lparr> min_replicas := new_min, max_replicas := new_max \<rparr>))
                | None \<Rightarrow> (result0, hpa_config))
             else if action dec \<in> set [''scale_up_vertical'', ''scale_down_vertical''] then
               (result0 \<lparr> result_note := Some
                   ''Vertical scaling requires deployment resource updates, not HPA changes'',
                  recommendation := Some (recommended_memory_increase dec,
                                          recommended_cpu_increase dec) \<rparr>,
                hpa_config)
             else if action dec = ''maintain'' then
               (result0 \<lparr> result_note := Some
                   ''No HPA changes needed, current configuration is appropriate'' \<rparr>,
                hpa_config)
             else (result0, hpa_config));
          result2 =
            (if changes result1 \<noteq> [] \<and> \<not> dry_run mgr then
               result1 \<lparr> applied := apply_to_cluster config1 \<rparr>
             else if changes result1 \<noteq> [] then
               result1 \<lparr> result_note :=
                 Some ''Dry-run mode: Changes not applied to cluster'' \<rparr>
             else result1)
      in (result2, config1,
          mgr \<lparr> applied_changes := applied_changes mgr @ [result2] \<rparr>))"

section \<open>schedule_generator.py\<close>

text \<open>
  Of a \<open>datetime\<close> the generator reads the hour of the day (0 to 23) and the day of the
  week (\<open>weekday()\<close>: 0 is Monday, 6 is Sunday).
\<close>

record py_datetime =
  hour :: nat
  weekday :: nat

record schedule_entry =
  time :: string
  target_pods :: int
  reason :: string
  entry_confidence :: real
  day_of_week :: "string option"

record ScalingSchedule =
  schedule_name :: string
  description :: string
  schedule_entries :: "schedule_entry list"

definition ScalingSchedule_init :: "string \<Rightarrow> string \<Rightarrow> ScalingSchedule" where
  "ScalingSchedule_init nm descr =
     \<lparr> schedule_name = nm, description = descr, schedule_entries = [] \<rparr>"

text \<open>\<open>add_entry\<close>: an empty or absent \<open>day_of_week\<close> sets no key.\<close>

definition add_entry ::
  "string \<Rightarrow> int \<Rightarrow> string \<Rightarrow> string option \<Rightarrow> real \<Rightarrow> ScalingSchedule \<Rightarrow> ScalingSchedule" where
  "add_entry t pods rsn dow conf sched =
     sched \<lparr> schedule_entries := schedule_entries sched @
       [\<lparr> time = t, target_pods = pods, reason = rsn, entry_confidence = conf,
          day_of_week = (case dow of Some d \<Rightarrow> if d \<noteq> [] then Some d else None
                         | None \<Rightarrow> None) \<rparr>] \<rparr>"

text \<open>\<open>str(n)\<close> and the format \<open>{n:02d}\<close> for a natural number.\<close>

definition digit_char :: "nat \<Rightarrow> char" where
  "digit_char d = ''0123456789'' ! d"

fun str_nat :: "nat \<Rightarrow> string" where
  "str_nat n = (if n < 10 then [digit_char n] else str_nat (n div 10) @ [digit_char (n mod 10)])"

declare str_nat.simps [simp del]

definition format_02d :: "nat \<Rightarrow> string" where
  "format_02d n = (let s = str_nat n in if length s < 2 then CHR ''0'' # s else s)"

subsection \<open>Pattern analysis\<close>

text \<open>
  \<open>defaultdict(list)\<close> filled by \<open>d[k].append(v)\<close>: a dictionary in insertion order,
  as a list of keys with their lists.
\<close>

fun dict_append :: "'k \<Rightarrow> 'v \<Rightarrow> ('k \<times> 'v list) list \<Rightarrow> ('k \<times> 'v list) list" where
  "dict_append k v [] = [(k, [v])]"
| "dict_append k v ((k', vs) # rest) =
     (if k = k' then (k', vs @ [v]) # rest else (k', vs) # dict_append k v rest)"

definition group_by :: "('a \<Rightarrow> 'k) \<Rightarrow> ('a \<times> 'v) list \<Rightarrow> ('k \<times> 'v list) list" where
  "group_by key history = foldl (\<lambda>d (ts, m). dict_append (key ts) m d) [] history"

text \<open>\<open>strftime("%A")\<close> for the day names.\<close>

definition day_name :: "nat \<Rightarrow> string" where
  "day_name d =
     (if d = 0 then ''Monday'' else if d = 1 then ''Tuesday'' else if d = 2 then ''Wednesday''
      else if d = 3 then ''Thursday'' else if d = 4 then ''Friday''
      else if d = 5 then ''Saturday'' else ''Sunday'')"

text \<open>
  \<open>sum(xs) / len(xs)\<close> for floats and for ints, and \<open>max(xs)\<close>; all three raise on the
  empty list.
\<close>

definition float_mean :: "(real list \<Rightarrow> real) \<Rightarrow> real list \<Rightarrow> real" where
  "float_mean py_sum xs = fdiv (py_sum xs) (py_float (int (length xs)))"

definition int_mean :: "int list \<Rightarrow> real" where
  "int_mean ns = int_truediv (sum_list ns) (int (length ns))"

definition py_mean :: "(real list \<Rightarrow> real) \<Rightarrow> real list \<Rightarrow> py_error + real" where
  "py_mean py_sum xs = (if xs = [] then Inl ZeroDivisionError else Inr (float_mean py_sum xs))"

definition py_mean_int :: "int list \<Rightarrow> py_error + real" where
  "py_mean_int ns = (if ns = [] then Inl ZeroDivisionError else Inr (int_mean ns))"

definition py_max :: "int list \<Rightarrow> py_error + int" where
  "py_max xs =
     (case xs of [] \<Rightarrow> Inl (ValueError ''max() arg is an empty sequence'')
      | x # rest \<Rightarrow> Inr (foldl max x rest))"

text \<open>
  The per-hour dictionary; its key \<open>max_pods\<close> is the field \<open>observed_max_pods\<close>.
\<close>

record hour_stats =
  cpu :: real
  memory :: real
  rps :: real
  avg_pods :: real
  observed_max_pods :: int

record day_stats =
  day_cpu :: real
  day_memory :: real
  day_rps :: real
  day_avg_pods :: real

definition hour_average ::
  "(real list \<Rightarrow> real) \<Rightarrow> ScalingMetrics list \<Rightarrow> py_error + hour_stats" where
  "hour_average py_sum metrics_list =
     (case py_mean py_sum (map cpu_utilization metrics_list) of
        Inl e \<Rightarrow> Inl e
      | Inr c \<Rightarrow>
     (case py_mean py_sum (map memory_utilization metrics_list) of
        Inl e \<Rightarrow> Inl e
      | Inr m \<Rightarrow>
     (case py_mean py_sum (map request_rate metrics_list) of
        Inl e \<Rightarrow> Inl e
      | Inr r \<Rightarrow>
     (case py_mean_int (map current_pod_count metrics_list) of
        Inl e \<Rightarrow> Inl e
      | Inr p \<Rightarrow>
     (case py_max (map current_pod_count metrics_list) of
        Inl e \<Rightarrow> Inl e
      | Inr mx \<Rightarrow>
          Inr \<lparr> cpu = c, memory = m, rps = r, avg_pods = p, observed_max_pods = mx \<rparr>)))))"

definition day_average ::
  "(real list \<Rightarrow> real) \<Rightarrow> ScalingMetrics list \<Rightarrow> py_error + day_stats" where
  "day_average py_sum metrics_list =
     (case py_mean py_sum (map cpu_utilization metrics_list) of
        Inl e \<Rightarrow> Inl e
      | Inr c \<Rightarrow>
     (case py_mean py_sum (map memory_utilization metrics_list) of
        Inl e \<Rightarrow> Inl e
      | Inr m \<Rightarrow>
     (case py_mean py_sum (map request_rate metrics_list) of
        Inl e \<Rightarrow> Inl e
      | Inr r \<Rightarrow>
     (case py_mean_int (map current_pod_count metrics_list) of
        Inl e \<Rightarrow> Inl e
      | Inr p \<Rightarrow>
          Inr \<lparr> day_cpu = c, day_memory = m, day_rps = r, day_avg_pods = p \<rparr>))))"

text \<open>The loop that fills a dictionary of averages, stopping at the first exception.\<close>

fun averages :: "('m list \<Rightarrow> py_error + 's) \<Rightarrow> ('k \<times> 'm list) list \<Rightarrow> py_error + ('k \<times> 's) list" where
  "averages f [] = Inr []"
| "averages f ((k, ms) # rest) =
     (case f ms of Inl e \<Rightarrow> Inl e
      | Inr s \<Rightarrow> (case averages f rest of Inl e \<Rightarrow> Inl e | Inr out \<Rightarrow> Inr ((k, s) # out)))"

record peak_hour =
  peak_hour_of :: nat
  peak_cpu :: real
  peak_rps :: real
  severity :: string

record low_hour =
  low_hour_of :: nat
  low_cpu :: real
  low_rps :: real

text \<open>
  \<open>_identify_peak_hours\<close>.  \<open>sorted(..., reverse=True)\<close> is stable: it sorts the
  reversed list and reverses the result.
\<close>

definition identify_peak_hours ::
  "(real list \<Rightarrow> real) \<Rightarrow> (nat \<times> hour_stats) list \<Rightarrow> peak_hour list" where
  "identify_peak_hours py_sum hourly_averages =
     (if hourly_averages = [] then []
      else
        let avg_cpu = float_mean py_sum (map (cpu \<circ> snd) hourly_averages);
            avg_rps = float_mean py_sum (map (rps \<circ> snd) hourly_averages);
            peak_hours =
              map (\<lambda>(h, metrics). \<lparr> peak_hour_of = h, peak_cpu = cpu metrics,
                                      peak_rps = rps metrics, severity = ''high'' \<rparr>)
                  (filter (\<lambda>(h, metrics). cpu metrics > fmul avg_cpu 1.5
                                            \<or> rps metrics > fmul avg_rps 1.5)
                          hourly_averages)
        in rev (sort_key peak_cpu (rev peak_hours)))"

text \<open>\<open>_identify_low_hours\<close>.\<close>

definition identify_low_hours ::
  "(real list \<Rightarrow> real) \<Rightarrow> (nat \<times> hour_stats) list \<Rightarrow> low_hour list" where
  "identify_low_hours py_sum hourly_averages =
     (if hourly_averages = [] then []
      else
        let avg_cpu = float_mean py_sum (map (cpu \<circ> snd) hourly_averages);
            avg_rps = float_mean py_sum (map (rps \<circ> snd) hourly_averages);
            low_hours =
              map (\<lambda>(h, metrics). \<lparr> low_hour_of = h, low_cpu = cpu metrics,
                                      low_rps = rps metrics \<rparr>)
                  (filter (\<lambda>(h, metrics). cpu metrics < fmul avg_cpu 0.5
                                            \<and> rps metrics < fmul avg_rps 0.5)
                          hourly_averages)
        in sort_key low_hour_of low_hours)"

text \<open>
  \<open>analyze_patterns\<close> returns a dictionary: with the single key \<open>error\<close> for an empty
  history, with the analysis otherwise.
\<close>

record pattern_analysis =
  hourly_patterns :: "(nat \<times> hour_stats) list"
  daily_patterns :: "(string \<times> day_stats) list"
  peak_hours :: "peak_hour list"
  low_traffic_hours :: "low_hour list"

datatype patterns =
    PatternError string
  | Patterns pattern_analysis

definition analyze_patterns ::
  "(real list \<Rightarrow> real) \<Rightarrow> (py_datetime \<times> ScalingMetrics) list \<Rightarrow> py_error + patterns" where
  "analyze_patterns py_sum metrics_history =
     (if metrics_history = [] then Inr (PatternError ''No metrics history provided'')
      else
        (case averages (hour_average py_sum) (group_by hour metrics_history) of
          Inl e \<Rightarrow> Inl e
        | Inr hourly_averages \<Rightarrow>
            (case averages (day_average py_sum)
                    (group_by (\<lambda>ts. day_name (weekday ts)) metrics_history) of
               Inl e \<Rightarrow> Inl e
             | Inr daily_averages \<Rightarrow>
                 Inr (Patterns
                   \<lparr> hourly_patterns = hourly_averages,
                     daily_patterns = daily_averages,
                     peak_hours = identify_peak_hours py_sum hourly_averages,
                     low_traffic_hours = identify_low_hours py_sum hourly_averages \<rparr>))))"

subsection \<open>Schedule generation\<close>

text \<open>
  The pod count \<open>generate_schedule\<close> recommends for one hour, clamped: two double
  divisions, one double product, and \<open>int\<close> of the product.
\<close>

definition recommended_pods_for :: "hour_stats \<Rightarrow> int \<Rightarrow> int \<Rightarrow> int" where
  "recommended_pods_for metrics min_pods max_pods =
     (let cpu_factor = fdiv (cpu metrics) 70;
          memory_factor = fdiv (memory metrics) 80;
          scaling_factor = max cpu_factor memory_factor;
          recommended_pods = py_int (fmul (avg_pods metrics) (max 1 scaling_factor))
      in max min_pods (min max_pods recommended_pods))"

text \<open>
  The body of the loop over the sorted hours: the pre-scale entry for a peak hour, half an
  hour before it (\<open>(hour - 1) % 24\<close> is 23 for hour 0), then the entry of the hour.
\<close>

definition hour_entries ::
  "pattern_analysis \<Rightarrow> int \<Rightarrow> int \<Rightarrow> nat \<Rightarrow> hour_stats \<Rightarrow> ScalingSchedule \<Rightarrow> ScalingSchedule" where
  "hour_entries pats min_pods max_pods h metrics sched =
     (let recommended_pods = recommended_pods_for metrics min_pods max_pods;
          is_peak = (h \<in> set (map peak_hour_of (peak_hours pats)));
          sched1 =
            (if is_peak then
               (let pre_hour = nat ((int h - 1) mod 24);
                    pre_minute = 30
                in add_entry (format_02d pre_hour @ '':'' @ format_02d pre_minute)
                     recommended_pods
                     (''Pre-scale for peak hour '' @ str_nat h @ '':00'')
                     None 0.9 sched)
             else sched)
      in add_entry (format_02d h @ '':00'') recommended_pods
           (''Scheduled scaling for hour '' @ str_nat h) None 0.85 sched1)"

fun schedule_hours ::
  "pattern_analysis \<Rightarrow> int \<Rightarrow> int \<Rightarrow> nat list \<Rightarrow> ScalingSchedule \<Rightarrow> py_error + ScalingSchedule" where
  "schedule_hours pats min_pods max_pods [] sched = Inr sched"
| "schedule_hours pats min_pods max_pods (h # hs) sched =
     (case map_of (hourly_patterns pats) h of
        None \<Rightarrow> Inl KeyError
      | Some metrics \<Rightarrow>
          schedule_hours pats min_pods max_pods hs
            (hour_entries pats min_pods max_pods h metrics sched))"

definition low_traffic_entries ::
  "int \<Rightarrow> low_hour list \<Rightarrow> ScalingSchedule \<Rightarrow> ScalingSchedule" where
  "low_traffic_entries min_pods lows sched =
     foldl (\<lambda>s hour_info.
              add_entry (format_02d (low_hour_of hour_info) @ '':00'') min_pods
                ''Scale down during low traffic'' None 0.95 s)
           sched lows"

definition generate_schedule ::
  "(real list \<Rightarrow> real) \<Rightarrow> (py_datetime \<times> ScalingMetrics) list \<Rightarrow> int \<Rightarrow> int
   \<Rightarrow> py_error + ScalingSchedule" where
  "generate_schedule py_sum metrics_history min_pods max_pods =
     (case analyze_patterns py_sum metrics_history of
        Inl e \<Rightarrow> Inl e
      | Inr (PatternError msg) \<Rightarrow> Inr (ScalingSchedule_init ''error-schedule'' [])
      | Inr (Patterns pats) \<Rightarrow>
          (case schedule_hours pats min_pods max_pods
                  (sort (map fst (hourly_patterns pats)))
                  (ScalingSchedule_init ''ai-workload-schedule''
                     ''Generated from historical metrics analysis'') of
             Inl e \<Rightarrow> Inl e
           | Inr sched \<Rightarrow>
               Inr (low_traffic_entries min_pods (low_traffic_hours pats) sched)))"

section \<open>Quantities the properties are stated with\<close>

text \<open>The values of a history whose timestamp has a given key, in the history's order.\<close>

definition group_of :: "('a \<Rightarrow> 'k) \<Rightarrow> 'k \<Rightarrow> ('a \<times> 'v) list \<Rightarrow> 'v list" where
  "group_of key k history = map snd (filter (\<lambda>(ts, m). key ts = k) history)"

definition snapshots_at ::
  "nat \<Rightarrow> (py_datetime \<times> ScalingMetrics) list \<Rightarrow> ScalingMetrics list" where
  "snapshots_at h history = group_of hour h history"

text \<open>
  The mean of a float field over the snapshots of an hour, and the mean pod count of an
  hour, as Python computes them: the sum divided by the number of snapshots.
\<close>

definition hourly_mean ::
  "(real list \<Rightarrow> real) \<Rightarrow> (ScalingMetrics \<Rightarrow> real)
   \<Rightarrow> (py_datetime \<times> ScalingMetrics) list \<Rightarrow> nat \<Rightarrow> real" where
  "hourly_mean py_sum f history h = float_mean py_sum (map f (snapshots_at h history))"

definition hourly_mean_pods :: "(py_datetime \<times> ScalingMetrics) list \<Rightarrow> nat \<Rightarrow> real" where
  "hourly_mean_pods history h = int_mean (map current_pod_count (snapshots_at h history))"

definition hours_with_data :: "(py_datetime \<times> ScalingMetrics) list \<Rightarrow> nat set" where
  "hours_with_data history = hour ` fst ` set history"

text \<open>The hours with data, each once, in the order in which they first appear.\<close>

definition first_seen :: "'a list \<Rightarrow> 'a list" where
  "first_seen xs = rev (remdups (rev xs))"

definition hours_in_order :: "(py_datetime \<times> ScalingMetrics) list \<Rightarrow> nat list" where
  "hours_in_order history = first_seen (map (hour \<circ> fst) history)"

text \<open>
  The mean of the hourly means: every hour with data counts once, the hourly means are
  summed in the order of \<open>hours_in_order\<close>.
\<close>

definition mean_of_hourly_means ::
  "(real list \<Rightarrow> real) \<Rightarrow> (ScalingMetrics \<Rightarrow> real)
   \<Rightarrow> (py_datetime \<times> ScalingMetrics) list \<Rightarrow> real" where
  "mean_of_hourly_means py_sum f history =
     float_mean py_sum (map (hourly_mean py_sum f history) (hours_in_order history))"

text \<open>
  The global mean in the specification's words: the mean over all snapshots of the
  history, every snapshot counting once.
\<close>

definition global_mean ::
  "(real list \<Rightarrow> real) \<Rightarrow> (ScalingMetrics \<Rightarrow> real)
   \<Rightarrow> (py_datetime \<times> ScalingMetrics) list \<Rightarrow> real" where
  "global_mean py_sum f history = float_mean py_sum (map (f \<circ> snd) history)"

text \<open>The statistics of a non-empty group, and the analysis they make up.\<close>

definition hour_stats_of :: "(real list \<Rightarrow> real) \<Rightarrow> ScalingMetrics list \<Rightarrow> hour_stats" where
  "hour_stats_of py_sum ms =
     \<lparr> cpu = float_mean py_sum (map cpu_utilization ms),
       memory = float_mean py_sum (map memory_utilization ms),
       rps = float_mean py_sum (map request_rate ms),
       avg_pods = int_mean (map current_pod_count ms),
       observed_max_pods =
         (case map current_pod_count ms of [] \<Rightarrow> 0 | x # rest \<Rightarrow> foldl max x rest) \<rparr>"

definition day_stats_of :: "(real list \<Rightarrow> real) \<Rightarrow> ScalingMetrics list \<Rightarrow> day_stats" where
  "day_stats_of py_sum ms =
     \<lparr> day_cpu = float_mean py_sum (map cpu_utilization ms),
       day_memory = float_mean py_sum (map memory_utilization ms),
       day_rps = float_mean py_sum (map request_rate ms),
       day_avg_pods = int_mean (map current_pod_count ms) \<rparr>"

definition hourly_stats ::
  "(real list \<Rightarrow> real) \<Rightarrow> (py_datetime \<times> ScalingMetrics) list \<Rightarrow> (nat \<times> hour_stats) list" where
  "hourly_stats py_sum history =
     map (\<lambda>(k, ms). (k, hour_stats_of py_sum ms)) (group_by hour history)"

definition daily_stats ::
  "(real list \<Rightarrow> real) \<Rightarrow> (py_datetime \<times> ScalingMetrics) list \<Rightarrow> (string \<times> day_stats) list" where
  "daily_stats py_sum history =
     map (\<lambda>(k, ms). (k, day_stats_of py_sum ms))
         (group_by (\<lambda>ts. day_name (weekday ts)) history)"

definition analysis_of ::
  "(real list \<Rightarrow> real) \<Rightarrow> (py_datetime \<times> ScalingMetrics) list \<Rightarrow> pattern_analysis" where
  "analysis_of py_sum history =
     \<lparr> hourly_patterns = hourly_stats py_sum history,
       daily_patterns = daily_stats py_sum history,
       peak_hours = identify_peak_hours py_sum (hourly_stats py_sum history),
       low_traffic_hours = identify_low_hours py_sum (hourly_stats py_sum history) \<rparr>"

definition standard_entry :: "nat \<Rightarrow> hour_stats \<Rightarrow> int \<Rightarrow> int \<Rightarrow> schedule_entry" where
  "standard_entry h st min_pods max_pods =
     \<lparr> time = format_02d h @ '':00'',
       target_pods = recommended_pods_for st min_pods max_pods,
       reason = ''Scheduled scaling for hour '' @ str_nat h,
       entry_confidence = 0.85, day_of_week = None \<rparr>"

text \<open>The hours of the \<open>low_traffic_hours\<close> list of an analysis, in the list's order.\<close>

definition low_traffic_hours_of ::
  "(real list \<Rightarrow> real) \<Rightarrow> (py_datetime \<times> ScalingMetrics) list \<Rightarrow> nat list option" where
  "low_traffic_hours_of py_sum history =
     (case analyze_patterns py_sum history of
        Inr (Patterns pats) \<Rightarrow> Some (map low_hour_of (low_traffic_hours pats))
      | _ \<Rightarrow> None)"

text \<open>The times and targets of a generated schedule, in the order of its entries.\<close>

definition schedule_targets ::
  "(real list \<Rightarrow> real) \<Rightarrow> (py_datetime \<times> ScalingMetrics) list \<Rightarrow> int \<Rightarrow> int
   \<Rightarrow> (string \<times> int) list option" where
  "schedule_targets py_sum history min_pods max_pods =
     (case generate_schedule py_sum history min_pods max_pods of
        Inr sched \<Rightarrow> Some (map (\<lambda>e. (time e, target_pods e)) (schedule_entries sched))
      | Inl e \<Rightarrow> None)"

section \<open>Concrete inputs\<close>

text \<open>The high-load and normal-load scenarios of \<open>ai_scaling_engine.main\<close>.\<close>

definition spike_metrics :: ScalingMetrics where
  "spike_metrics = \<lparr> cpu_utilization = 88, memory_utilization = 85, request_rate = 620,
     response_time_ms = 920, error_rate = 11.2, active_connections = 2380,
     queue_depth = 158, current_pod_count = 3 \<rparr>"

definition normal_metrics :: ScalingMetrics where
  "normal_metrics = \<lparr> cpu_utilization = 45, memory_utilization = 55, request_rate = 120,
     response_time_ms = 85, error_rate = 0.5, active_connections = 450,
     queue_depth = 5, current_pod_count = 3 \<rparr>"

text \<open>A service that receives no requests.\<close>

definition idle_metrics :: ScalingMetrics where
  "idle_metrics = \<lparr> cpu_utilization = 5, memory_utilization = 20, request_rate = 0,
     response_time_ms = 0, error_rate = 0, active_connections = 0,
     queue_depth = 0, current_pod_count = 2 \<rparr>"

text \<open>A backend that answers with fenced prose, and a decoder that accepts one text only.\<close>

definition fenced_reply :: string where
  "fenced_reply = fence @ ''json scale up now '' @ fence"

definition garbled_backend :: "ScalingMetrics \<times> ai_context option \<Rightarrow> backend_reply" where
  "garbled_backend request = ReplyText fenced_reply"

definition only_empty_object :: "string \<Rightarrow> json option" where
  "only_empty_object s = (if s = ''{}'' then Some (JObject []) else None)"

definition example_hpa :: HPAConfiguration where
  "example_hpa = \<lparr> name = ''ai-inference-hpa'', namespace = ''ai-services'',
     min_replicas = 1, max_replicas = 5, target_cpu_utilization = 70,
     target_memory_utilization = 80 \<rparr>"

definition wide_hpa :: HPAConfiguration where
  "wide_hpa = \<lparr> name = ''ai-inference-hpa'', namespace = ''ai-services'',
     min_replicas = 3, max_replicas = 20, target_cpu_utilization = 70,
     target_memory_utilization = 80 \<rparr>"

definition dry_manager :: K8sHPAManager where
  "dry_manager = \<lparr> dry_run = True, applied_changes = [] \<rparr>"

definition live_manager :: K8sHPAManager where
  "live_manager = \<lparr> dry_run = False, applied_changes = [] \<rparr>"

definition cluster_accepts :: "HPAConfiguration \<Rightarrow> bool" where
  "cluster_accepts c = True"

text \<open>Scale-down decisions with a negative pod count, as a backend reply can carry them.\<close>

definition negative_scale_down :: ScalingDecision where
  "negative_scale_down =
     (ScalingDecision_init ''scale_down_horizontal'')
       \<lparr> recommended_pod_count := Some (- 2), confidence := 0.9 \<rparr>"

definition very_negative_scale_down :: ScalingDecision where
  "very_negative_scale_down =
     (ScalingDecision_init ''scale_down_horizontal'')
       \<lparr> recommended_pod_count := Some (- 5), confidence := 0.9 \<rparr>"

definition scale_up_without_count :: ScalingDecision where
  "scale_up_without_count =
     (ScalingDecision_init ''scale_up_horizontal'')
       \<lparr> recommended_pod_count := Some 0, confidence := 0.7 \<rparr>"

definition night :: py_datetime where
  "night = \<lparr> hour = 3, weekday = 0 \<rparr>"

definition morning :: py_datetime where
  "morning = \<lparr> hour = 9, weekday = 0 \<rparr>"

definition busy_metrics :: ScalingMetrics where
  "busy_metrics = \<lparr> cpu_utilization = 91, memory_utilization = 40, request_rate = 300,
     response_time_ms = 150, error_rate = 1, active_connections = 900,
     queue_depth = 20, current_pod_count = 3 \<rparr>"

definition quiet_metrics :: ScalingMetrics where
  "quiet_metrics = \<lparr> cpu_utilization = 40, memory_utilization = 30, request_rate = 40,
     response_time_ms = 50, error_rate = 0, active_connections = 100,
     queue_depth = 0, current_pod_count = 2 \<rparr>"

definition loaded_metrics :: ScalingMetrics where
  "loaded_metrics = \<lparr> cpu_utilization = 100, memory_utilization = 70, request_rate = 100,
     response_time_ms = 200, error_rate = 1, active_connections = 400,
     queue_depth = 10, current_pod_count = 4 \<rparr>"

definition one_hour_history :: "(py_datetime \<times> ScalingMetrics) list" where
  "one_hour_history = [(morning, busy_metrics)]"

definition even_history :: "(py_datetime \<times> ScalingMetrics) list" where
  "even_history =
     [(morning, loaded_metrics),
      (night, quiet_metrics \<lparr> cpu_utilization := 10, request_rate := 10 \<rparr>)]"

definition uneven_history :: "(py_datetime \<times> ScalingMetrics) list" where
  "uneven_history = [(night, quiet_metrics), (morning, loaded_metrics),
                     (morning, loaded_metrics), (morning, loaded_metrics)]"

text \<open>
  Snapshots for histories: cpu, request rate and pod count vary, the other fields are
  fixed.
\<close>

definition sample :: "real \<Rightarrow> real \<Rightarrow> int \<Rightarrow> ScalingMetrics" where
  "sample c r n = \<lparr> cpu_utilization = c, memory_utilization = 40, request_rate = r,
     response_time_ms = 100, error_rate = 0, active_connections = 100,
     queue_depth = 0, current_pod_count = n \<rparr>"

definition at_hour :: "nat \<Rightarrow> nat \<Rightarrow> py_datetime" where
  "at_hour h d = \<lparr> hour = h, weekday = d \<rparr>"

text \<open>One snapshot at 09:00 with cpu 85 and 42 pods.\<close>

definition large_pool_history :: "(py_datetime \<times> ScalingMetrics) list" where
  "large_pool_history = [(at_hour 9 0, sample 85 300 42)]"

text \<open>
  A week with a snapshot at 03:00 and at 09:00 every day: the 03:00 mean is \<open>82 / 7\<close>,
  the 09:00 mean \<open>246 / 7\<close>, so the 03:00 mean is exactly half the mean of the two.
\<close>

definition tie_history :: "(py_datetime \<times> ScalingMetrics) list" where
  "tie_history =
     [(at_hour 3 0, sample 12 12 2), (at_hour 9 0, sample 36 36 4),
      (at_hour 3 1, sample 12 12 2), (at_hour 9 1, sample 35 35 4),
      (at_hour 3 2, sample 12 12 2), (at_hour 9 2, sample 35 35 4),
      (at_hour 3 3, sample 12 12 2), (at_hour 9 3, sample 35 35 4),
      (at_hour 3 4, sample 12 12 2), (at_hour 9 4, sample 35 35 4),
      (at_hour 3 5, sample 11 11 2), (at_hour 9 5, sample 35 35 4),
      (at_hour 3 6, sample 11 11 2), (at_hour 9 6, sample 35 35 4)]"

text \<open>
  Three days with snapshots at 08:00, 09:00 and 10:00: the hourly cpu means are 25,
  \<open>76 / 3\<close> and \<open>151 / 3\<close>, so the 10:00 mean is exactly 1.5 times their mean.
\<close>

definition peak_tie_history :: "(py_datetime \<times> ScalingMetrics) list" where
  "peak_tie_history =
     [(at_hour 8 0, sample 25 100 3), (at_hour 9 0, sample 25 100 3),
      (at_hour 10 0, sample 50 100 3),
      (at_hour 8 1, sample 25 100 3), (at_hour 9 1, sample 25 100 3),
      (at_hour 10 1, sample 50 100 3),
      (at_hour 8 2, sample 25 100 3), (at_hour 9 2, sample 26 100 3),
      (at_hour 10 2, sample 51 100 3)]"

section \<open>Rounding\<close>

text \<open>
  The exponent is the one the definition of \<open>rnd\<close> needs, and the rounded significand is
  within one half of the exact one; the evaluations are the doubles Python prints as
  \<open>0.7\<close>, \<open>62.99999999999999\<close> and \<open>50.99999999999999\<close>.
\<close>

lemma two_power_le_real: "(2::int) ^ k \<le> n \<Longrightarrow> (2::real) ^ k \<le> real_of_int n"
proof -
  assume "(2::int) ^ k \<le> n"
  then have "real_of_int (2 ^ k) \<le> real_of_int n" by (simp only: of_int_le_iff)
  then show ?thesis by simp
qed

lemma less_two_power_real: "n < (2::int) ^ k \<Longrightarrow> real_of_int n + 1 \<le> (2::real) ^ k"
proof -
  assume "n < (2::int) ^ k"
  then have "n + 1 \<le> 2 ^ k" by simp
  then have "real_of_int (n + 1) \<le> real_of_int (2 ^ k)" by (simp only: of_int_le_iff)
  then show ?thesis by simp
qed

lemma binary_exponent_bounds:
  assumes "0 < a"
  shows "pow2 (binary_exponent a) \<le> a \<and> a < pow2 (binary_exponent a + 1)"
proof (cases "1 \<le> a")
  case True
  define n where "n = \<lfloor>a\<rfloor>"
  have n: "0 < n" using True by (simp add: n_def)
  have b: "2 ^ nat (bitlen n - 1) \<le> n" "n < 2 ^ nat (bitlen n)"
    using bitlen_bounds [OF n] by simp_all
  have b1: "1 \<le> bitlen n" using n by (simp add: bitlen_alt_def)
  have e: "binary_exponent a = bitlen n - 1"
    using True by (simp add: binary_exponent_def n_def)
  have "(2::real) ^ nat (bitlen n - 1) \<le> real_of_int n"
    by (rule two_power_le_real [OF b(1)])
  also have "real_of_int n \<le> a" by (simp add: n_def)
  finally have lo: "pow2 (bitlen n - 1) \<le> a" using b1 by (simp add: pow2_def)
  have "a < real_of_int n + 1" by (simp add: n_def)
  also have "real_of_int n + 1 \<le> (2::real) ^ nat (bitlen n)"
    by (rule less_two_power_real [OF b(2)])
  finally have hi: "a < pow2 (bitlen n)" using b1 by (simp add: pow2_def)
  show ?thesis using lo hi by (simp add: e)
next
  case False
  define y where "y = 1 / a"
  define m where "m = \<lceil>y\<rceil> - 1"
  have y: "1 < y" using False assms by (simp add: y_def)
  have m: "0 < m" using y by (simp add: m_def)
  have my: "real_of_int m < y" "y \<le> real_of_int m + 1"
    unfolding m_def by linarith+
  have b: "2 ^ nat (bitlen m - 1) \<le> m" "m < 2 ^ nat (bitlen m)"
    using bitlen_bounds [OF m] by simp_all
  have b1: "1 \<le> bitlen m" using m by (simp add: bitlen_alt_def)
  have e: "binary_exponent a = - bitlen m"
    using False by (simp add: binary_exponent_def m_def y_def)
  have a: "a = 1 / y" using assms by (simp add: y_def)
  note my(2)
  also have "real_of_int m + 1 \<le> (2::real) ^ nat (bitlen m)"
    by (rule less_two_power_real [OF b(2)])
  finally have "y \<le> 2 ^ nat (bitlen m)" .
  then have "1 / 2 ^ nat (bitlen m) \<le> 1 / y" using y by (simp add: frac_le)
  then have lo: "pow2 (- bitlen m) \<le> a" using b1 a by (simp add: pow2_def)
  have "(2::real) ^ nat (bitlen m - 1) \<le> real_of_int m"
    by (rule two_power_le_real [OF b(1)])
  also note my(1)
  finally have "2 ^ nat (bitlen m - 1) < y" .
  then have "1 / y < 1 / 2 ^ nat (bitlen m - 1)" by (simp add: frac_less2)
  then have hi: "a < pow2 (- bitlen m + 1)"
    using b1 a by (cases "bitlen m = 1") (simp_all add: pow2_def)
  show ?thesis using lo hi by (simp add: e)
qed

lemma round_half_even_near: "\<bar>real_of_int (round_half_even q) - q\<bar> \<le> 1 / 2"
  unfolding round_half_even_def Let_def by (auto simp add: abs_le_iff)

lemmas double_eval = rnd_def binary_exponent_def round_half_even_def pow2_def compute_bitlen
  fadd_def fsub_def fmul_def fdiv_def py_float_def int_truediv_def decimal_def
  py_sum_left_to_right_def float_mean_def int_mean_def Let_def

lemma decimal_7_10: "decimal 7 10 = 3152519739159347 / 2 ^ 52"
  by (simp add: double_eval)

lemma scale_down_product_90: "py_int (fmul (py_float 90) (decimal 7 10)) = 62"
  by (simp add: double_eval py_int_def)

lemma pods_product_42_at_cpu_85: "py_int (fmul 42 (max 1 (max (fdiv 85 70) (fdiv 40 80)))) = 50"
  by (simp add: double_eval py_int_def)

section \<open>The decision engine\<close>

text \<open>
  Claim C1, as the code has it.  In the second rule (memory at most 90, and cpu above 80 or
  memory above 85) the decision is \<open>scale_up_horizontal\<close> with confidence 0.80 and
  urgency high, and the recommended pod count is \<open>int(current_pod_count * 1.5)\<close>: the
  product truncated toward zero, which is its floor for a non-negative pod count, not its
  ceiling.
\<close>

theorem rule_based_scale_up_horizontal:
  assumes "memory_utilization m \<le> 90"
    and "cpu_utilization m > 80 \<or> memory_utilization m > 85"
  shows "rule_based_decision m =
     \<lparr> action = ''scale_up_horizontal'',
       recommended_pod_count =
         Some (if 0 \<le> current_pod_count m
               then \<lfloor>real_of_int (current_pod_count m) * 1.5\<rfloor>
               else \<lceil>real_of_int (current_pod_count m) * 1.5\<rceil>),
       recommended_memory_increase = None,
       recommended_cpu_increase = None, confidence = 0.80,
       reasoning = ''High CPU/memory utilization detected'',
       urgency = ''high'', estimated_cost_impact = None \<rparr>"
proof -
  have "(0 \<le> real_of_int (current_pod_count m) * 1.5) = (0 \<le> current_pod_count m)"
    by (simp add: zero_le_mult_iff)
  then show ?thesis
    using assms by (auto simp add: rule_based_decision_def ScalingDecision_init_def py_int_def)
qed

text \<open>For cpu 88, memory 85 and 3 pods the rule recommends 4 pods.\<close>

theorem rule_based_scale_up_horizontal_witness:
  "memory_utilization spike_metrics \<le> 90
   \<and> (cpu_utilization spike_metrics > 80 \<or> memory_utilization spike_metrics > 85)
   \<and> action (rule_based_decision spike_metrics) = ''scale_up_horizontal''
   \<and> recommended_pod_count (rule_based_decision spike_metrics) = Some 4
   \<and> confidence (rule_based_decision spike_metrics) = 0.80
   \<and> urgency (rule_based_decision spike_metrics) = ''high''"
  using rule_based_scale_up_horizontal [of spike_metrics]
  by (simp add: spike_metrics_def)

text \<open>
  Claim C1 as stated fails at that input: the ceiling of \<open>3 * 1.5\<close> is 5, the
  recommended pod count is 4.
\<close>

theorem rule_based_ceil_counterexample:
  "memory_utilization spike_metrics \<le> 90
   \<and> (cpu_utilization spike_metrics > 80 \<or> memory_utilization spike_metrics > 85)
   \<and> \<lceil>real_of_int (current_pod_count spike_metrics) * 1.5\<rceil> = 5
   \<and> recommended_pod_count (rule_based_decision spike_metrics) = Some 4
   \<and> recommended_pod_count (rule_based_decision spike_metrics)
       \<noteq> Some \<lceil>real_of_int (current_pod_count spike_metrics) * 1.5\<rceil>"
  by (simp add: spike_metrics_def rule_based_decision_def ScalingDecision_init_def py_int_def)

text \<open>
  The scale-down count follows the double product: with 90 pods, \<open>90 * 0.7\<close> is
  \<open>62.99999999999999\<close> and the rule recommends 62 pods.
\<close>

lemma rule_based_scale_down_90:
  "recommended_pod_count
     (rule_based_decision ((sample 12 45 90) \<lparr> memory_utilization := 22 \<rparr>)) = Some 62"
  using scale_down_product_90
  by (simp add: rule_based_decision_def ScalingDecision_init_def sample_def)

text \<open>
  The trend of 0.7, 1.1, 1.1, 1.1 summed from left to right: the averages are 1.1 and 1.0
  and the difference in percent is the double \<open>10.000000000000009\<close>, above 10.
\<close>

lemma calculate_trend_just_above_ten:
  "calculate_trend py_sum_left_to_right
     [decimal 7 10, decimal 11 10, decimal 11 10, decimal 11 10]
   = Inr (Increasing (5629499534213125 / 2 ^ 49))"
  by (simp add: calculate_trend_def double_eval)

text \<open>Without a client, \<open>analyze_metrics\<close> returns the rule-based decision.\<close>

lemma analyze_metrics_without_client:
  "client engine = None \<Longrightarrow>
   analyze_metrics py_sum loads engine cur hist = Inr (Typed (rule_based_decision cur))"
  by (simp add: analyze_metrics_def)

text \<open>
  Once the context is prepared and the backend has replied, a reply that
  \<open>json.loads\<close> rejects after the code fences are stripped leads to the rule-based
  decision for the same current metrics.
\<close>

lemma ai_invalid_json_falls_back:
  assumes "client engine = Some backend"
    and "prepare_ai_context py_sum cur hist = Inr context"
    and "backend (cur, context) = ReplyText reply"
    and "loads (strip_code_fence reply) = None"
  shows "analyze_metrics py_sum loads engine cur hist
           = Inr (Typed (rule_based_decision cur))"
  using assms by (simp add: analyze_metrics_def ai_based_decision_def)

lemma strip_code_fence_fenced_reply: "strip_code_fence fenced_reply = ''scale up now''"
  by (simp add: strip_code_fence_def fenced_reply_def fence_def py_strip_def startswith_def
      is_py_space_def Let_def)

lemma prepare_ai_context_idle_history:
  "prepare_ai_context py_sum_left_to_right cur (Some [idle_metrics, idle_metrics])
     = Inl ZeroDivisionError"
  by (simp add: prepare_ai_context_def calculate_trend_def idle_metrics_def double_eval)

text \<open>
  Claim C5 fails on the code.  The backend below answers every request with a text that
  \<open>json.loads\<close> rejects after the fences are stripped.  With a history of three idle
  snapshots the trend of the request rate divides by the zero average while the context
  is prepared, before the backend is called and outside the \<open>try\<close> block:
  \<open>analyze_metrics\<close> raises \<open>ZeroDivisionError\<close> and returns no decision.
\<close>

theorem invalid_json_reply_with_idle_history:
  "only_empty_object (strip_code_fence fenced_reply) = None
   \<and> garbled_backend (spike_metrics, None) = ReplyText fenced_reply
   \<and> analyze_metrics py_sum_left_to_right only_empty_object
         \<lparr> client = Some garbled_backend \<rparr> spike_metrics
         (Some [idle_metrics, idle_metrics, idle_metrics]) = Inl ZeroDivisionError
   \<and> analyze_metrics py_sum_left_to_right only_empty_object
         \<lparr> client = Some garbled_backend \<rparr> spike_metrics
         (Some [idle_metrics, idle_metrics, idle_metrics])
       \<noteq> Inr (Typed (rule_based_decision spike_metrics))"
  by (simp add: strip_code_fence_fenced_reply only_empty_object_def garbled_backend_def
      analyze_metrics_def ai_based_decision_def prepare_ai_context_def
      calculate_trend_def idle_metrics_def double_eval)

text \<open>
  A decoded object whose confidence is a string makes the comparison after the decision
  raise \<open>TypeError\<close>: the constructor stores what the reply holds.
\<close>

lemma analyze_raises_on_text_confidence:
  assumes "client engine = Some backend"
    and "prepare_ai_context py_sum cur hist = Inr context"
    and "backend (cur, context) = ReplyText reply"
    and "loads (strip_code_fence reply) = Some (JObject d)"
    and "map_of d ''confidence'' = Some (JString s)"
  shows "analyze_metrics py_sum loads engine cur hist = Inl TypeError"
proof -
  have "get_float d ''confidence'' 0 = None"
    using assms(5) by (simp add: get_float_def)
  then have "typed_decision d = None"
    by (simp add: typed_decision_def split: option.splits)
  then show ?thesis
    using assms
    by (simp add: analyze_metrics_def ai_based_decision_def confidence_comparable_def)
qed

text \<open>
  Claim C6 fails on the code.  With a client configured and a history whose request rate
  is zero throughout, the trend computation divides by the zero average before the
  \<open>try\<close> block is entered, and \<open>analyze_metrics\<close> raises \<open>ZeroDivisionError\<close>.
\<close>

theorem analyze_raises_on_zero_average:
  "analyze_metrics py_sum_left_to_right only_empty_object \<lparr> client = Some garbled_backend \<rparr>
     normal_metrics (Some [idle_metrics, idle_metrics]) = Inl ZeroDivisionError"
  by (simp add: analyze_metrics_def ai_based_decision_def prepare_ai_context_def
      calculate_trend_def idle_metrics_def double_eval)

section \<open>The HPA manager\<close>

text \<open>
  Claim C2 fails on the code.  A configuration that the constructor accepts, reconciled
  with a \<open>scale_down_horizontal\<close> decision that recommends \<open>-2\<close> pods, ends with
  \<open>min_replicas = 2\<close> and \<open>max_replicas = 1\<close>: the call returns normally and the
  configuration no longer satisfies what the constructor checks.
\<close>

theorem reconcile_breaks_replica_bounds:
  "HPAConfiguration_init ''ai-inference-hpa'' ''ai-services'' 1 5 70 80 = Inr example_hpa
   \<and> hpa_valid example_hpa
   \<and> fst (snd (apply_decision_to_hpa cluster_accepts dry_manager example_hpa
                  negative_scale_down))
       = example_hpa \<lparr> min_replicas := 2, max_replicas := 1 \<rparr>
   \<and> \<not> hpa_valid (fst (snd (apply_decision_to_hpa cluster_accepts dry_manager example_hpa
                              negative_scale_down)))"
  by (simp add: apply_decision_to_hpa_def truthy_count_def py_int_def Let_def
      HPAConfiguration_init_def hpa_valid_def example_hpa_def
      dry_manager_def negative_scale_down_def ScalingDecision_init_def)

text \<open>
  The bounds survive every other decision: one without a pod count, or with a count of at
  least \<open>-1\<close>.
\<close>

lemma py_int_half_le: "py_int (real_of_int n * 0.5) \<le> max 0 n"
  unfolding py_int_def by (auto simp: zero_le_mult_iff) linarith+

lemma reconcile_keeps_valid:
  assumes "hpa_valid cfg"
    and "\<forall>n. recommended_pod_count dec = Some n \<longrightarrow> - 1 \<le> n"
  shows "hpa_valid (fst (snd (apply_decision_to_hpa f mgr cfg dec)))"
proof (cases "recommended_pod_count dec")
  case None
  then show ?thesis
    using assms(1)
    by (simp add: apply_decision_to_hpa_def truthy_count_def Let_def hpa_valid_def)
next
  case (Some n)
  then show ?thesis
    using assms py_int_half_le [of n]
    by (auto simp add: apply_decision_to_hpa_def truthy_count_def Let_def hpa_valid_def
        split: if_splits)
qed

text \<open>
  The constructor accepts exactly the parameters that satisfy the four conditions, and
  fails with a \<open>ValueError\<close> otherwise.
\<close>

lemma constructor_validates:
  "(case HPAConfiguration_init nm ns mn mx tc tm of
      Inl e \<Rightarrow>
        \<not> (1 \<le> mn \<and> mn \<le> mx \<and> 1 \<le> tc \<and> tc \<le> 100 \<and> 1 \<le> tm \<and> tm \<le> 100)
        \<and> e \<in> ValueError ` {''min_replicas must be at least 1'',
                              ''max_replicas must be >= min_replicas'',
                              ''target_cpu_utilization must be between 1 and 100'',
                              ''target_memory_utilization must be between 1 and 100''}
    | Inr c \<Rightarrow>
        hpa_valid c
        \<and> c = \<lparr> name = nm, namespace = ns, min_replicas = mn, max_replicas = mx,
                  target_cpu_utilization = tc, target_memory_utilization = tm \<rparr>)"
  by (auto simp add: HPAConfiguration_init_def hpa_valid_def)

text \<open>
  Claim C3 fails on the code.  A configuration that the constructor accepts (3 to 20
  replicas), reconciled by a live manager with a \<open>scale_down_horizontal\<close> decision that
  recommends \<open>-5\<close> pods, is mutated to \<open>min_replicas = 2\<close> and \<open>max_replicas = -2\<close>.
  The constructor would reject these bounds; the reconcile call does not check them: it
  returns a result with two recorded changes, hands the configuration to the cluster, and
  leaves the configuration changed.
\<close>

theorem reconcile_accepts_invalid_bounds:
  "HPAConfiguration_init ''ai-inference-hpa'' ''ai-services'' 3 20 70 80 = Inr wide_hpa
   \<and> HPAConfiguration_init ''ai-inference-hpa'' ''ai-services'' 2 (- 2) 70 80
       = Inl (ValueError ''max_replicas must be >= min_replicas'')
   \<and> fst (snd (apply_decision_to_hpa cluster_accepts live_manager wide_hpa
                  very_negative_scale_down))
       = wide_hpa \<lparr> min_replicas := 2, max_replicas := - 2 \<rparr>
   \<and> fst (snd (apply_decision_to_hpa cluster_accepts live_manager wide_hpa
                  very_negative_scale_down)) \<noteq> wide_hpa
   \<and> length (changes (fst (apply_decision_to_hpa cluster_accepts live_manager wide_hpa
                             very_negative_scale_down))) = 2
   \<and> applied (fst (apply_decision_to_hpa cluster_accepts live_manager wide_hpa
                     very_negative_scale_down))"
  by (simp add: apply_decision_to_hpa_def truthy_count_def py_int_def Let_def
      HPAConfiguration_init_def wide_hpa_def live_manager_def
      very_negative_scale_down_def ScalingDecision_init_def cluster_accepts_def)

text \<open>
  Claim C7.  For a \<open>maintain\<close>, \<open>scale_up_vertical\<close> or \<open>scale_down_vertical\<close>
  decision the configuration after the call is the configuration before it, whatever the
  configuration; no change is recorded and nothing is applied.  The result carries the
  advisory note, and for the two vertical actions the recommended memory and cpu increase.
  The result is appended to the manager's list.
\<close>

theorem advisory_actions_leave_config:
  assumes "action dec \<in> {''maintain'', ''scale_up_vertical'', ''scale_down_vertical''}"
  shows "apply_decision_to_hpa f mgr cfg dec =
     (let r = \<lparr> hpa_name = name cfg, decision = dec, changes = [], applied = False,
                 result_dry_run = dry_run mgr,
                 result_note = Some (if action dec = ''maintain''
                   then ''No HPA changes needed, current configuration is appropriate''
                   else ''Vertical scaling requires deployment resource updates, not HPA changes''),
                 recommendation = (if action dec = ''maintain'' then None
                   else Some (recommended_memory_increase dec,
                              recommended_cpu_increase dec)) \<rparr>
      in (r, cfg, mgr \<lparr> applied_changes := applied_changes mgr @ [r] \<rparr>))"
  using assms by (auto simp add: apply_decision_to_hpa_def Let_def)

theorem advisory_actions_leave_config_witness:
  "action (rule_based_decision normal_metrics)
     \<in> {''maintain'', ''scale_up_vertical'', ''scale_down_vertical''}
   \<and> fst (snd (apply_decision_to_hpa cluster_accepts live_manager wide_hpa
                  (rule_based_decision normal_metrics))) = wide_hpa
   \<and> changes (fst (apply_decision_to_hpa cluster_accepts live_manager wide_hpa
                     (rule_based_decision normal_metrics))) = []
   \<and> result_note (fst (apply_decision_to_hpa cluster_accepts live_manager wide_hpa
                         (rule_based_decision normal_metrics)))
       = Some ''No HPA changes needed, current configuration is appropriate''"
proof -
  have a: "action (rule_based_decision normal_metrics) = ''maintain''"
    by (simp add: rule_based_decision_def normal_metrics_def ScalingDecision_init_def)
  then have "action (rule_based_decision normal_metrics)
     \<in> {''maintain'', ''scale_up_vertical'', ''scale_down_vertical''}" by simp
  from advisory_actions_leave_config [OF this, of cluster_accepts live_manager wide_hpa] a
  show ?thesis by (simp add: Let_def)
qed

text \<open>
  Claim C10.  A horizontal decision whose recommended pod count is absent or 0 leaves the
  configuration as it is, records no change and reports \<open>applied = False\<close>; no note is
  set.
\<close>

theorem horizontal_without_count_is_noop:
  assumes "action dec = ''scale_up_horizontal'' \<or> action dec = ''scale_down_horizontal''"
    and "recommended_pod_count dec = None \<or> recommended_pod_count dec = Some 0"
  shows "apply_decision_to_hpa f mgr cfg dec =
     (let r = \<lparr> hpa_name = name cfg, decision = dec, changes = [], applied = False,
                 result_dry_run = dry_run mgr, result_note = None, recommendation = None \<rparr>
      in (r, cfg, mgr \<lparr> applied_changes := applied_changes mgr @ [r] \<rparr>))"
  using assms by (auto simp add: apply_decision_to_hpa_def Let_def truthy_count_def)

theorem horizontal_without_count_is_noop_witness:
  "(action scale_up_without_count = ''scale_up_horizontal''
      \<or> action scale_up_without_count = ''scale_down_horizontal'')
   \<and> (recommended_pod_count scale_up_without_count = None
      \<or> recommended_pod_count scale_up_without_count = Some 0)
   \<and> fst (snd (apply_decision_to_hpa cluster_accepts live_manager wide_hpa
                  scale_up_without_count)) = wide_hpa
   \<and> changes (fst (apply_decision_to_hpa cluster_accepts live_manager wide_hpa
                     scale_up_without_count)) = []
   \<and> \<not> applied (fst (apply_decision_to_hpa cluster_accepts live_manager wide_hpa
                       scale_up_without_count))"
proof -
  have a: "action scale_up_without_count = ''scale_up_horizontal''
             \<or> action scale_up_without_count = ''scale_down_horizontal''"
    by (simp add: scale_up_without_count_def ScalingDecision_init_def)
  have c: "recommended_pod_count scale_up_without_count = None
             \<or> recommended_pod_count scale_up_without_count = Some 0"
    by (simp add: scale_up_without_count_def ScalingDecision_init_def)
  from horizontal_without_count_is_noop [OF a c, of cluster_accepts live_manager wide_hpa] a c
  show ?thesis by (simp add: Let_def)
qed

section \<open>The schedule generator\<close>

subsection \<open>Grouping\<close>

text \<open>
  The dictionary built by the grouping loop has one key for every key of the history, in
  the order of first appearance, and under it the values with that key: no group is empty,
  so the averages never divide by zero.
\<close>

lemma map_of_dict_append:
  "map_of (dict_append k v d) k' =
     (if k' = k then Some ((case map_of d k of None \<Rightarrow> [] | Some vs \<Rightarrow> vs) @ [v])
      else map_of d k')"
  by (induction d) auto

lemma keys_dict_append:
  "map fst (dict_append k v d) = (if k \<in> set (map fst d) then map fst d else map fst d @ [k])"
  by (induction d) force+

lemma group_by_snoc:
  "group_by key (history @ [(ts, m)]) = dict_append (key ts) m (group_by key history)"
  by (simp add: group_by_def)

lemma group_by_Nil: "group_by key [] = []"
  by (simp add: group_by_def)

lemma map_of_group_by:
  "map_of (group_by key history) k =
     (if group_of key k history = [] then None else Some (group_of key k history))"
proof (induction history rule: rev_induct)
  case Nil
  show ?case by (simp add: group_by_Nil group_of_def)
next
  case (snoc x xs)
  obtain ts m where x: "x = (ts, m)" by (cases x)
  show ?case
    using snoc
    by (auto simp add: x group_by_snoc map_of_dict_append group_of_def)
qed

lemma keys_group_by:
  "distinct (map fst (group_by key history))
   \<and> set (map fst (group_by key history)) = key ` fst ` set history"
proof (induction history rule: rev_induct)
  case Nil
  show ?case by (simp add: group_by_Nil)
next
  case (snoc x xs)
  obtain ts m where x: "x = (ts, m)" by (cases x)
  show ?case
    using snoc by (auto simp add: x group_by_snoc keys_dict_append)
qed

lemma key_set_group_by: "fst ` set (group_by key history) = key ` fst ` set history"
  using keys_group_by [of key history] by simp

lemma group_of_nonempty_iff:
  "group_of key k history \<noteq> [] \<longleftrightarrow> k \<in> key ` fst ` set history"
  by (force simp add: group_of_def filter_empty_conv image_iff)

lemma groups_nonempty:
  assumes "(k, ms) \<in> set (group_by key history)"
  shows "ms = group_of key k history \<and> ms \<noteq> []"
proof -
  have "distinct (map fst (group_by key history))" using keys_group_by by blast
  then have "map_of (group_by key history) k = Some ms" using assms by simp
  then show ?thesis by (simp add: map_of_group_by split: if_splits)
qed

lemma group_by_eq_map:
  "group_by key history =
     map (\<lambda>k. (k, group_of key k history)) (map fst (group_by key history))"
proof -
  have "\<forall>p \<in> set (group_by key history). p = (fst p, group_of key (fst p) history)"
    using groups_nonempty by (metis prod.collapse)
  then show ?thesis by (simp add: map_idI comp_def cong: map_cong)
qed



lemma first_seen_snoc:
  "first_seen (xs @ [x]) = (if x \<in> set xs then first_seen xs else first_seen xs @ [x])"
  by (simp add: first_seen_def)

lemma set_first_seen: "set (first_seen xs) = set xs"
  by (simp add: first_seen_def)

lemma keys_group_by_first_seen:
  "map fst (group_by key history) = first_seen (map (key \<circ> fst) history)"
proof (induction history rule: rev_induct)
  case Nil
  show ?case by (simp add: group_by_Nil first_seen_def)
next
  case (snoc x xs)
  obtain ts m where x: "x = (ts, m)" by (cases x)
  have "set (map fst (group_by key xs)) = set (map (key \<circ> fst) xs)"
    using snoc by (simp only: set_first_seen)
  then show ?case
    using snoc by (simp add: x group_by_snoc keys_dict_append first_seen_snoc)
qed

subsection \<open>Averages and schedule entries\<close>

lemma hour_average_nonempty:
  "ms \<noteq> [] \<Longrightarrow> hour_average py_sum ms = Inr (hour_stats_of py_sum ms)"
  by (cases ms)
     (simp_all add: hour_average_def py_mean_def py_mean_int_def py_max_def hour_stats_of_def)

lemma day_average_nonempty:
  "ms \<noteq> [] \<Longrightarrow> day_average py_sum ms = Inr (day_stats_of py_sum ms)"
  by (simp add: day_average_def py_mean_def py_mean_int_def day_stats_of_def)

lemma averages_total:
  assumes "\<And>ms. ms \<noteq> [] \<Longrightarrow> f ms = Inr (g ms)"
    and "\<forall>p \<in> set d. snd p \<noteq> []"
  shows "averages f d = Inr (map (\<lambda>(k, ms). (k, g ms)) d)"
  using assms(2)
proof (induction d)
  case Nil
  show ?case by simp
next
  case (Cons p d)
  obtain k ms where p: "p = (k, ms)" by (cases p)
  from Cons.prems have "ms \<noteq> []" by (simp add: p)
  then have "f ms = Inr (g ms)" by (rule assms(1))
  moreover have "averages f d = Inr (map (\<lambda>(k, ms). (k, g ms)) d)"
    using Cons by simp
  ultimately show ?case by (simp add: p)
qed

lemma group_by_groups_nonempty: "\<forall>p \<in> set (group_by key history). snd p \<noteq> []"
  using groups_nonempty by (metis prod.collapse)

lemma analyze_patterns_nonempty:
  assumes "history \<noteq> []"
  shows "analyze_patterns py_sum history = Inr (Patterns (analysis_of py_sum history))"
proof -
  have h: "averages (hour_average py_sum) (group_by hour history)
             = Inr (hourly_stats py_sum history)"
    unfolding hourly_stats_def
    by (rule averages_total [OF hour_average_nonempty group_by_groups_nonempty])
  have d: "averages (day_average py_sum) (group_by (\<lambda>ts. day_name (weekday ts)) history)
             = Inr (daily_stats py_sum history)"
    unfolding daily_stats_def
    by (rule averages_total [OF day_average_nonempty group_by_groups_nonempty])
  show ?thesis
    using assms by (simp add: analyze_patterns_def h d analysis_of_def)
qed

lemma analyze_patterns_total: "\<exists>r. analyze_patterns py_sum history = Inr r"
  by (cases "history = []")
     (simp_all add: analyze_patterns_nonempty, simp add: analyze_patterns_def)

lemma map_of_hourly_stats:
  "map_of (hourly_stats py_sum history) h =
     (if snapshots_at h history = [] then None
      else Some (hour_stats_of py_sum (snapshots_at h history)))"
proof -
  have "map_of (hourly_stats py_sum history) h
          = map_option (hour_stats_of py_sum) (map_of (group_by hour history) h)"
    unfolding hourly_stats_def by (simp add: map_of_map)
  then show ?thesis by (simp add: map_of_group_by snapshots_at_def)
qed

lemma keys_hourly_stats:
  "map fst (hourly_stats py_sum history) = map fst (group_by hour history)"
  by (simp add: hourly_stats_def comp_def case_prod_unfold)

lemma snapshots_at_nonempty_iff:
  "snapshots_at h history \<noteq> [] \<longleftrightarrow> h \<in> hours_with_data history"
  by (simp add: snapshots_at_def hours_with_data_def group_of_nonempty_iff)

lemma entries_add_entry:
  "schedule_entries (add_entry t p r None c s) =
     schedule_entries s @ [\<lparr> time = t, target_pods = p, reason = r, entry_confidence = c,
                              day_of_week = None \<rparr>]"
  by (simp add: add_entry_def)

lemma entries_hour_entries:
  "\<exists>pre. schedule_entries (hour_entries pats mn mx h st s) =
          schedule_entries s @ pre @ [standard_entry h st mn mx]"
  by (simp add: hour_entries_def Let_def entries_add_entry standard_entry_def)

lemma schedule_hours_total:
  assumes "\<forall>h \<in> set hs. \<exists>st. map_of (hourly_patterns pats) h = Some st"
  shows "\<exists>s'. schedule_hours pats mn mx hs s = Inr s'
           \<and> set (schedule_entries s) \<subseteq> set (schedule_entries s')
           \<and> (\<forall>h \<in> set hs. \<forall>st. map_of (hourly_patterns pats) h = Some st
                 \<longrightarrow> standard_entry h st mn mx \<in> set (schedule_entries s'))"
  using assms
proof (induction hs arbitrary: s)
  case Nil
  show ?case by simp
next
  case (Cons h hs)
  from Cons.prems obtain st where st: "map_of (hourly_patterns pats) h = Some st" by auto
  let ?s1 = "hour_entries pats mn mx h st s"
  obtain pre where pre: "schedule_entries ?s1 = schedule_entries s @ pre @ [standard_entry h st mn mx]"
    using entries_hour_entries by blast
  from Cons.IH [of ?s1] Cons.prems obtain s' where
    s': "schedule_hours pats mn mx hs ?s1 = Inr s'"
      "set (schedule_entries ?s1) \<subseteq> set (schedule_entries s')"
      "\<forall>h \<in> set hs. \<forall>st. map_of (hourly_patterns pats) h = Some st
           \<longrightarrow> standard_entry h st mn mx \<in> set (schedule_entries s')"
    by auto
  have "schedule_hours pats mn mx (h # hs) s = Inr s'" by (simp add: st s'(1))
  moreover have "set (schedule_entries s) \<subseteq> set (schedule_entries s')"
    using s'(2) pre by auto
  moreover have "standard_entry h st mn mx \<in> set (schedule_entries s')"
    using s'(2) pre by auto
  ultimately show ?case using s'(3) st by auto
qed

lemma entries_low_traffic:
  "set (schedule_entries s) \<subseteq> set (schedule_entries (low_traffic_entries mn lows s))"
proof (induction lows arbitrary: s)
  case Nil
  show ?case by (simp add: low_traffic_entries_def)
next
  case (Cons a lows)
  let ?s1 = "add_entry (format_02d (low_hour_of a) @ '':00'') mn
               ''Scale down during low traffic'' None 0.95 s"
  have "set (schedule_entries s) \<subseteq> set (schedule_entries ?s1)"
    by (auto simp add: entries_add_entry)
  also have "\<dots> \<subseteq> set (schedule_entries (low_traffic_entries mn lows ?s1))"
    by (rule Cons.IH)
  also have "low_traffic_entries mn lows ?s1 = low_traffic_entries mn (a # lows) s"
    by (simp add: low_traffic_entries_def)
  finally show ?case .
qed

lemma generate_schedule_standard_entry:
  assumes "snapshots_at h history \<noteq> []"
  shows "\<exists>sched. generate_schedule py_sum history mn mx = Inr sched
           \<and> standard_entry h (hour_stats_of py_sum (snapshots_at h history)) mn mx
                \<in> set (schedule_entries sched)"
proof -
  from assms have ne: "history \<noteq> []" by (auto simp add: snapshots_at_def group_of_def)
  let ?pats = "analysis_of py_sum history"
  let ?hs = "sort (map fst (hourly_patterns ?pats))"
  let ?st = "hour_stats_of py_sum (snapshots_at h history)"
  have hp: "hourly_patterns ?pats = hourly_stats py_sum history"
    by (simp add: analysis_of_def)
  have keys: "\<forall>k \<in> set ?hs. \<exists>st. map_of (hourly_patterns ?pats) k = Some st"
  proof
    fix k assume "k \<in> set ?hs"
    then have "k \<in> fst ` set (hourly_stats py_sum history)" by (simp add: hp)
    then have "map_of (hourly_stats py_sum history) k \<noteq> None"
      by (simp add: map_of_eq_None_iff)
    then show "\<exists>st. map_of (hourly_patterns ?pats) k = Some st" by (simp add: hp)
  qed
  have mem: "h \<in> set ?hs"
  proof -
    have "h \<in> hour ` fst ` set history"
      using assms by (simp add: snapshots_at_nonempty_iff hours_with_data_def)
    then have "h \<in> set (map fst (group_by hour history))"
      using keys_group_by [of hour history] by blast
    then show ?thesis by (simp only: hp keys_hourly_stats set_sort)
  qed
  have look: "map_of (hourly_patterns ?pats) h = Some ?st"
    unfolding hp using assms by (simp add: map_of_hourly_stats)
  obtain s' where s':
    "schedule_hours ?pats mn mx ?hs (ScalingSchedule_init ''ai-workload-schedule''
        ''Generated from historical metrics analysis'') = Inr s'"
    "\<forall>k \<in> set ?hs. \<forall>st. map_of (hourly_patterns ?pats) k = Some st
           \<longrightarrow> standard_entry k st mn mx \<in> set (schedule_entries s')"
    using schedule_hours_total [OF keys] by blast
  have "standard_entry h ?st mn mx \<in> set (schedule_entries s')"
    using s'(2) mem look by blast
  then have "standard_entry h ?st mn mx
      \<in> set (schedule_entries (low_traffic_entries mn (low_traffic_hours ?pats) s'))"
    using entries_low_traffic by blast
  moreover have "generate_schedule py_sum history mn mx
      = Inr (low_traffic_entries mn (low_traffic_hours ?pats) s')"
    by (simp add: generate_schedule_def analyze_patterns_nonempty [OF ne] s'(1))
  ultimately show ?thesis by blast
qed

lemma hourly_stats_eq_map:
  "hourly_stats py_sum history =
     map (\<lambda>k. (k, hour_stats_of py_sum (snapshots_at k history))) (hours_in_order history)"
proof -
  have "hourly_stats py_sum history
      = map (\<lambda>(k, ms). (k, hour_stats_of py_sum ms))
          (map (\<lambda>k. (k, group_of hour k history)) (map fst (group_by hour history)))"
    unfolding hourly_stats_def using group_by_eq_map [of hour history] by simp
  then show ?thesis
    by (simp add: comp_def snapshots_at_def keys_group_by_first_seen hours_in_order_def)
qed

lemma set_hours_in_order: "set (hours_in_order history) = hours_with_data history"
  by (simp add: hours_in_order_def set_first_seen hours_with_data_def image_image)

lemma hourly_average_of_field:
  assumes "\<And>ms. fld (hour_stats_of py_sum ms) = float_mean py_sum (map f ms)"
  shows "float_mean py_sum (map (fld \<circ> snd) (hourly_stats py_sum history))
         = mean_of_hourly_means py_sum f history"
  by (simp add: hourly_stats_eq_map comp_def assms hourly_mean_def [abs_def]
      mean_of_hourly_means_def)

lemma mem_hourly_stats:
  "(h, st) \<in> set (hourly_stats py_sum history) \<longleftrightarrow>
     h \<in> hours_with_data history \<and> st = hour_stats_of py_sum (snapshots_at h history)"
  by (subst hourly_stats_eq_map) (auto simp add: set_hours_in_order)


subsection \<open>Properties\<close>

text \<open>
  Claim C4, as the code has it.  For every hour with data the schedule holds the entry at
  \<open>HH:00\<close> with confidence 0.85 and the reason naming the hour, whose target is
  \<open>int(mean_pods * max(1.0, max(mean_cpu / 70.0, mean_memory / 80.0)))\<close>: the two
  quotients and the product are rounded to double precision (\<open>fdiv\<close>, \<open>fmul\<close>), the
  product is then truncated toward zero (\<open>py_int\<close>), not rounded to the nearest
  integer, and clamped as \<open>max(min_pods, min(max_pods, _))\<close>.  The means are those of
  the snapshots of that hour, the sum divided by their number.  The schedule is always
  produced.
\<close>

theorem schedule_has_standard_entry:
  assumes "(ts, m) \<in> set history"
  shows "\<exists>sched. generate_schedule py_sum history min_pods max_pods = Inr sched
     \<and> \<lparr> time = format_02d (hour ts) @ '':00'',
          target_pods =
            max min_pods (min max_pods
              (py_int (fmul (hourly_mean_pods history (hour ts))
                 (max 1 (max (fdiv (hourly_mean py_sum cpu_utilization history (hour ts)) 70)
                             (fdiv (hourly_mean py_sum memory_utilization history (hour ts))
                                   80)))))),
          reason = ''Scheduled scaling for hour '' @ str_nat (hour ts),
          entry_confidence = 0.85, day_of_week = None \<rparr>
        \<in> set (schedule_entries sched)"
proof -
  have "snapshots_at (hour ts) history \<noteq> []"
  proof -
    have "hour ts \<in> hours_with_data history"
      unfolding hours_with_data_def using assms by force
    then show ?thesis by (simp add: snapshots_at_nonempty_iff)
  qed
  from generate_schedule_standard_entry [OF this, of py_sum min_pods max_pods]
  show ?thesis
    by (simp add: standard_entry_def recommended_pods_for_def hour_stats_of_def
        hourly_mean_def hourly_mean_pods_def Let_def)
qed

text \<open>Evaluation of the means on concrete histories.\<close>

lemmas history_eval = hourly_mean_def hourly_mean_pods_def snapshots_at_def group_of_def
  hours_with_data_def hours_in_order_def first_seen_def mean_of_hourly_means_def
  global_mean_def at_hour_def sample_def night_def morning_def

lemma one_hour_means:
  "hourly_mean_pods one_hour_history 9 = 3"
  "hourly_mean py_sum_left_to_right cpu_utilization one_hour_history 9 = 91"
  "hourly_mean py_sum_left_to_right memory_utilization one_hour_history 9 = 40"
  by (simp_all add: history_eval one_hour_history_def busy_metrics_def double_eval)

lemma one_hour_product:
  "fmul 3 (max 1 (max (fdiv 91 70) (fdiv 40 80))) = 2195504818343117 / 2 ^ 49"
  by (simp add: double_eval)

theorem schedule_has_standard_entry_witness:
  "(morning, busy_metrics) \<in> set one_hour_history
   \<and> (\<exists>sched. generate_schedule py_sum_left_to_right one_hour_history 1 20 = Inr sched
        \<and> \<lparr> time = ''09:00'', target_pods = 3, reason = ''Scheduled scaling for hour 9'',
             entry_confidence = 0.85, day_of_week = None \<rparr> \<in> set (schedule_entries sched))"
proof -
  have m: "(morning, busy_metrics) \<in> set one_hour_history"
    by (simp add: one_hour_history_def)
  have h: "hour morning = 9" by (simp add: morning_def)
  have f: "format_02d 9 = ''09''" "str_nat 9 = ''9''"
    by (simp_all add: format_02d_def str_nat.simps digit_char_def)
  from schedule_has_standard_entry [OF m, of py_sum_left_to_right 1 20]
  show ?thesis
    by (simp add: m h f one_hour_means one_hour_product py_int_def)
qed


text \<open>
  One snapshot at hour 9 with cpu 91, memory 40 and 3 pods: \<open>91 / 70\<close> is the double
  \<open>1.3\<close> and the product the double \<open>3.9000000000000004\<close>.
\<close>

lemma one_hour_schedule:
  "generate_schedule py_sum_left_to_right one_hour_history 1 20 =
     Inr \<lparr> schedule_name = ''ai-workload-schedule'',
           description = ''Generated from historical metrics analysis'',
           schedule_entries =
             [\<lparr> time = ''09:00'',
                target_pods = max 1 (min 20 (py_int (fmul 3
                  (max 1 (max (fdiv 91 70) (fdiv 40 80)))))),
                reason = ''Scheduled scaling for hour 9'',
                entry_confidence = 0.85, day_of_week = None \<rparr>] \<rparr>"
proof -
  let ?st = "hour_stats_of py_sum_left_to_right [busy_metrics]"
  have ne: "one_hour_history \<noteq> []" by (simp add: one_hour_history_def)
  have g: "group_by hour one_hour_history = [(9, [busy_metrics])]"
    by (simp add: group_by_def one_hour_history_def morning_def)
  have hs: "hourly_stats py_sum_left_to_right one_hour_history = [(9, ?st)]"
    by (simp add: hourly_stats_def g)
  have c: "cpu ?st = 91" "rps ?st = 300" "memory ?st = 40" "avg_pods ?st = 3"
    by (simp_all add: hour_stats_of_def busy_metrics_def double_eval)
  have a: "float_mean py_sum_left_to_right [91] = 91"
          "float_mean py_sum_left_to_right [300] = 300"
    by (simp_all add: double_eval)
  have t: "fmul 91 (3 / 2) = 273 / 2" "fmul 300 (3 / 2) = 450" "fmul 91 (1 / 2) = 91 / 2"
          "fmul 300 (1 / 2) = 150"
    by (simp_all add: double_eval)
  have p: "identify_peak_hours py_sum_left_to_right [(9, ?st)] = []"
    by (simp add: identify_peak_hours_def c a t)
  have l: "identify_low_hours py_sum_left_to_right [(9, ?st)] = []"
    by (simp add: identify_low_hours_def c a t)
  have f: "format_02d 9 = ''09''" "str_nat 9 = ''9''"
    by (simp_all add: format_02d_def str_nat.simps digit_char_def)
  show ?thesis
    by (simp add: generate_schedule_def analyze_patterns_nonempty [OF ne] analysis_of_def
        hs p l hour_entries_def recommended_pods_for_def low_traffic_entries_def
        ScalingSchedule_init_def add_entry_def f c Let_def)
qed

text \<open>
  Claim C4 as stated fails.  For that history the only entry of the schedule has target
  3; rounding the product gives 4.
\<close>

theorem schedule_round_counterexample:
  "generate_schedule py_sum_left_to_right one_hour_history 1 20 =
     Inr \<lparr> schedule_name = ''ai-workload-schedule'',
           description = ''Generated from historical metrics analysis'',
           schedule_entries =
             [\<lparr> time = ''09:00'', target_pods = 3, reason = ''Scheduled scaling for hour 9'',
                entry_confidence = 0.85, day_of_week = None \<rparr>] \<rparr>
   \<and> max 1 (min 20 (round (fmul (hourly_mean_pods one_hour_history 9)
        (max 1 (max (fdiv (hourly_mean py_sum_left_to_right cpu_utilization
                             one_hour_history 9) 70)
                    (fdiv (hourly_mean py_sum_left_to_right memory_utilization
                             one_hour_history 9) 80)))))) = (4::int)"
  by (simp add: one_hour_schedule one_hour_means one_hour_product py_int_def round_def)

text \<open>The low-traffic hours of a non-empty history.\<close>

lemma distinct_map_sort_key: "distinct (map f (sort_key f xs)) = distinct (map f xs)"
  by (simp only: distinct_map distinct_sort set_sort)

lemma distinct_set_singleton:
  assumes "distinct xs" and "set xs = {a}"
  shows "xs = [a]"
proof (cases xs)
  case Nil
  then show ?thesis using assms(2) by simp
next
  case (Cons x l)
  have "x = a" using assms(2) Cons by auto
  moreover have "set l \<subseteq> {a}" using assms(2) Cons by auto
  moreover have "x \<notin> set l" using assms(1) Cons by simp
  ultimately have "\<forall>y. y \<notin> set l" by blast
  then have "l = []" by (cases l) auto
  then show ?thesis using Cons \<open>x = a\<close> by simp
qed

lemma low_traffic_hours_iff:
  assumes "history \<noteq> []"
  shows "\<exists>hs. low_traffic_hours_of py_sum history = Some hs \<and> sorted hs \<and> distinct hs
     \<and> (\<forall>h. h \<in> set hs \<longleftrightarrow>
           h \<in> hours_with_data history
           \<and> hourly_mean py_sum cpu_utilization history h
               < fmul (mean_of_hourly_means py_sum cpu_utilization history) 0.5
           \<and> hourly_mean py_sum request_rate history h
               < fmul (mean_of_hourly_means py_sum request_rate history) 0.5)"
proof -
  let ?ha = "hourly_stats py_sum history"
  let ?P = "\<lambda>(h, metrics).
              cpu metrics < fmul (mean_of_hourly_means py_sum cpu_utilization history) 0.5
              \<and> rps metrics < fmul (mean_of_hourly_means py_sum request_rate history) 0.5"
  let ?mk = "\<lambda>(h, metrics). \<lparr> low_hour_of = h, low_cpu = cpu metrics, low_rps = rps metrics \<rparr>"
  let ?lows = "sort_key low_hour_of (map ?mk (filter ?P ?ha))"
  have ne: "?ha \<noteq> []"
  proof -
    obtain ts m where "(ts, m) \<in> set history" using assms by (cases history) auto
    then have "hour ts \<in> hours_with_data history" unfolding hours_with_data_def by force
    then have "(hour ts, hour_stats_of py_sum (snapshots_at (hour ts) history)) \<in> set ?ha"
      by (simp add: mem_hourly_stats)
    then show ?thesis by auto
  qed
  have c: "float_mean py_sum (map (cpu \<circ> snd) ?ha)
             = mean_of_hourly_means py_sum cpu_utilization history"
    by (rule hourly_average_of_field) (simp add: hour_stats_of_def)
  have r: "float_mean py_sum (map (rps \<circ> snd) ?ha)
             = mean_of_hourly_means py_sum request_rate history"
    by (rule hourly_average_of_field) (simp add: hour_stats_of_def)
  have low: "identify_low_hours py_sum ?ha = ?lows"
    using ne by (simp add: identify_low_hours_def c r Let_def)
  have res: "low_traffic_hours_of py_sum history = Some (map low_hour_of ?lows)"
    by (simp add: low_traffic_hours_of_def analyze_patterns_nonempty [OF assms]
        analysis_of_def low)
  have srt: "sorted (map low_hour_of ?lows)" by (rule sorted_sort_key)
  have mem: "h \<in> set (map low_hour_of ?lows) \<longleftrightarrow>
           h \<in> hours_with_data history
           \<and> hourly_mean py_sum cpu_utilization history h
               < fmul (mean_of_hourly_means py_sum cpu_utilization history) 0.5
           \<and> hourly_mean py_sum request_rate history h
               < fmul (mean_of_hourly_means py_sum request_rate history) 0.5" for h
  proof -
    have "h \<in> set (map low_hour_of ?lows) \<longleftrightarrow> (\<exists>st. (h, st) \<in> set ?ha \<and> ?P (h, st))"
      by (force simp add: image_iff)
    also have "\<dots> \<longleftrightarrow> h \<in> hours_with_data history
        \<and> ?P (h, hour_stats_of py_sum (snapshots_at h history))"
      by (auto simp add: mem_hourly_stats)
    also have "\<dots> \<longleftrightarrow> h \<in> hours_with_data history
           \<and> hourly_mean py_sum cpu_utilization history h
               < fmul (mean_of_hourly_means py_sum cpu_utilization history) 0.5
           \<and> hourly_mean py_sum request_rate history h
               < fmul (mean_of_hourly_means py_sum request_rate history) 0.5"
      by (simp add: hour_stats_of_def hourly_mean_def)
    finally show ?thesis .
  qed
  have "distinct (map fst ?ha)"
    by (simp add: hourly_stats_eq_map comp_def hours_in_order_def first_seen_def)
  then have "distinct (map fst (filter ?P ?ha))"
    by (rule distinct_map_filter)
  moreover have "map low_hour_of (map ?mk (filter ?P ?ha)) = map fst (filter ?P ?ha)"
    by (simp add: comp_def case_prod_unfold)
  ultimately have "distinct (map low_hour_of (map ?mk (filter ?P ?ha)))"
    by (simp only:)
  then have dst: "distinct (map low_hour_of ?lows)"
    by (simp only: distinct_map_sort_key)
  show ?thesis using res srt dst mem by blast
qed

text \<open>
  Claim C8, as the code has it.  For a non-empty history the hours of
  \<open>low_traffic_hours\<close> are sorted ascending, and an hour is among them exactly when it
  has data, its mean cpu is below the double product of 0.5 and the mean of the hourly cpu
  means, and its mean request rate is below the double product of 0.5 and the mean of the
  hourly request-rate means.  The reference value gives every hour with data the same
  weight, however many snapshots it has: it is the sum of the hourly means, taken in the
  order in which the hours first appear, divided by the number of hours.
\<close>

theorem low_traffic_hours_characterised:
  assumes "history \<noteq> []"
  shows "\<exists>hs. low_traffic_hours_of py_sum history = Some hs \<and> sorted hs
     \<and> (\<forall>h. h \<in> set hs \<longleftrightarrow>
           h \<in> hours_with_data history
           \<and> hourly_mean py_sum cpu_utilization history h
               < fmul (mean_of_hourly_means py_sum cpu_utilization history) 0.5
           \<and> hourly_mean py_sum request_rate history h
               < fmul (mean_of_hourly_means py_sum request_rate history) 0.5)"
  using low_traffic_hours_iff [OF assms, of py_sum] by blast

lemma sum_small:
  "py_sum_left_to_right [100, 10] = 110" "py_sum_left_to_right [100] = 100"
  "py_sum_left_to_right [10] = 10"
  by (simp_all add: double_eval)

lemma even_history_means:
  "hours_with_data even_history = {9, 3}"
  "hours_in_order even_history = [9, 3]"
  "hourly_mean py_sum_left_to_right cpu_utilization even_history 3 = 10"
  "hourly_mean py_sum_left_to_right cpu_utilization even_history 9 = 100"
  "hourly_mean py_sum_left_to_right request_rate even_history 3 = 10"
  "hourly_mean py_sum_left_to_right request_rate even_history 9 = 100"
  by (simp_all add: history_eval even_history_def quiet_metrics_def loaded_metrics_def
      double_eval)

lemma even_history_thresholds:
  "fmul (mean_of_hourly_means py_sum_left_to_right cpu_utilization even_history) (1 / 2)
     = 55 / 2"
  "fmul (mean_of_hourly_means py_sum_left_to_right request_rate even_history) (1 / 2)
     = 55 / 2"
  by (simp_all add: mean_of_hourly_means_def even_history_means double_eval)

theorem low_traffic_hours_characterised_witness:
  "even_history \<noteq> []
   \<and> (\<exists>hs. low_traffic_hours_of py_sum_left_to_right even_history = Some hs \<and> sorted hs
         \<and> 3 \<in> set hs \<and> 9 \<notin> set hs)"
proof -
  have ne: "even_history \<noteq> []" by (simp add: even_history_def)
  from low_traffic_hours_characterised [OF ne, of py_sum_left_to_right] obtain hs where
    hs: "low_traffic_hours_of py_sum_left_to_right even_history = Some hs" "sorted hs" and
    iff: "\<And>h. h \<in> set hs \<longleftrightarrow>
           h \<in> hours_with_data even_history
           \<and> hourly_mean py_sum_left_to_right cpu_utilization even_history h
               < fmul (mean_of_hourly_means py_sum_left_to_right cpu_utilization
                         even_history) 0.5
           \<and> hourly_mean py_sum_left_to_right request_rate even_history h
               < fmul (mean_of_hourly_means py_sum_left_to_right request_rate
                         even_history) 0.5"
    by blast
  have "3 \<in> set hs" unfolding iff by (simp add: even_history_means even_history_thresholds)
  moreover have "9 \<notin> set hs"
    unfolding iff by (simp add: even_history_means even_history_thresholds)
  ultimately show ?thesis using ne hs by blast
qed


text \<open>
  Hour 3 has one snapshot (cpu 40, request rate 40), hour 9 has three (cpu 100, request
  rate 100): the mean over all snapshots is 85, the mean of the hourly means is 70.
\<close>

lemma uneven_history_means:
  "hours_with_data uneven_history = {3, 9}"
  "hours_in_order uneven_history = [3, 9]"
  "hourly_mean py_sum_left_to_right cpu_utilization uneven_history 3 = 40"
  "hourly_mean py_sum_left_to_right cpu_utilization uneven_history 9 = 100"
  "hourly_mean py_sum_left_to_right request_rate uneven_history 3 = 40"
  "hourly_mean py_sum_left_to_right request_rate uneven_history 9 = 100"
  "global_mean py_sum_left_to_right cpu_utilization uneven_history = 85"
  "global_mean py_sum_left_to_right request_rate uneven_history = 85"
  by (simp_all add: history_eval uneven_history_def quiet_metrics_def loaded_metrics_def
      double_eval)

lemma uneven_history_thresholds:
  "fmul (mean_of_hourly_means py_sum_left_to_right cpu_utilization uneven_history) (1 / 2)
     = 35"
  "fmul (mean_of_hourly_means py_sum_left_to_right request_rate uneven_history) (1 / 2)
     = 35"
  "fmul 85 (1 / 2) = 85 / 2"
  by (simp_all add: mean_of_hourly_means_def uneven_history_means double_eval)

lemma uneven_history_low_hours: "low_traffic_hours_of py_sum_left_to_right uneven_history = Some []"
proof -
  have ne: "uneven_history \<noteq> []" by (simp add: uneven_history_def)
  from low_traffic_hours_iff [OF ne, of py_sum_left_to_right] obtain hs where
    hs: "low_traffic_hours_of py_sum_left_to_right uneven_history = Some hs" and
    iff: "\<And>h. h \<in> set hs \<longleftrightarrow>
           h \<in> hours_with_data uneven_history
           \<and> hourly_mean py_sum_left_to_right cpu_utilization uneven_history h
               < fmul (mean_of_hourly_means py_sum_left_to_right cpu_utilization
                         uneven_history) 0.5
           \<and> hourly_mean py_sum_left_to_right request_rate uneven_history h
               < fmul (mean_of_hourly_means py_sum_left_to_right request_rate
                         uneven_history) 0.5"
    by blast
  have "h \<notin> set hs" for h
    unfolding iff by (auto simp add: uneven_history_means uneven_history_thresholds)
  then have "hs = []" by (cases hs) auto
  then show ?thesis using hs by simp
qed

text \<open>
  Claim C8 with the global mean taken over all snapshots fails.  The mean of hour 3 is
  below half the mean over all snapshots, and the list of low-traffic hours is empty.
\<close>

theorem low_traffic_global_mean_counterexample:
  "low_traffic_hours_of py_sum_left_to_right uneven_history = Some []
   \<and> 3 \<in> hours_with_data uneven_history
   \<and> hourly_mean py_sum_left_to_right cpu_utilization uneven_history 3
       < fmul (global_mean py_sum_left_to_right cpu_utilization uneven_history) 0.5
   \<and> hourly_mean py_sum_left_to_right request_rate uneven_history 3
       < fmul (global_mean py_sum_left_to_right request_rate uneven_history) 0.5"
  by (simp add: uneven_history_low_hours uneven_history_means uneven_history_thresholds)

text \<open>
  Where the exact means tie, the doubles decide.  In \<open>tie_history\<close> the mean of hour 3
  is the double \<open>11.714285714285714\<close> and half the mean of the hourly means is the
  double \<open>11.714285714285715\<close>: hour 3 is a low-traffic hour.
\<close>

lemma tie_history_hours:
  "hours_with_data tie_history = {3, 9}"
  "hours_in_order tie_history = [3, 9]"
  by (auto simp add: history_eval tie_history_def)

lemma tie_groups:
  "snapshots_at 3 tie_history = [sample 12 12 2, sample 12 12 2, sample 12 12 2,
     sample 12 12 2, sample 12 12 2, sample 11 11 2, sample 11 11 2]"
  "snapshots_at 9 tie_history = [sample 36 36 4, sample 35 35 4, sample 35 35 4,
     sample 35 35 4, sample 35 35 4, sample 35 35 4, sample 35 35 4]"
  by (simp_all add: snapshots_at_def group_of_def tie_history_def at_hour_def)

lemma tie_sums:
  "py_sum_left_to_right [12, 12, 12, 12, 12, 11, 11] = 82"
  "py_sum_left_to_right [36, 35, 35, 35, 35, 35, 35] = 246"
  by (simp_all add: double_eval)

lemma tie_history_means:
  "hourly_mean py_sum_left_to_right cpu_utilization tie_history 3 = fdiv 82 7"
  "hourly_mean py_sum_left_to_right cpu_utilization tie_history 9 = fdiv 246 7"
  "hourly_mean py_sum_left_to_right request_rate tie_history 3 = fdiv 82 7"
  "hourly_mean py_sum_left_to_right request_rate tie_history 9 = fdiv 246 7"
proof -
  have f: "py_float 7 = 7" by (simp add: double_eval)
  show "hourly_mean py_sum_left_to_right cpu_utilization tie_history 3 = fdiv 82 7"
    "hourly_mean py_sum_left_to_right cpu_utilization tie_history 9 = fdiv 246 7"
    "hourly_mean py_sum_left_to_right request_rate tie_history 3 = fdiv 82 7"
    "hourly_mean py_sum_left_to_right request_rate tie_history 9 = fdiv 246 7"
    by (simp_all add: hourly_mean_def tie_groups sample_def float_mean_def tie_sums f)
qed


lemma tie_values:
  "fdiv 82 7 = 6594556597221083 / 2 ^ 49"
  "fdiv 246 7 = 4945917447915813 / 2 ^ 47"
  by (simp_all add: double_eval)

lemma tie_threshold:
  "fmul (float_mean py_sum_left_to_right
           [6594556597221083 / 2 ^ 49, 4945917447915813 / 2 ^ 47]) (1 / 2)
     = 1648639149305271 / 2 ^ 47"
  by (simp add: double_eval)

lemma tie_history_thresholds:
  "fmul (mean_of_hourly_means py_sum_left_to_right cpu_utilization tie_history) (1 / 2)
     = 1648639149305271 / 2 ^ 47"
  "fmul (mean_of_hourly_means py_sum_left_to_right request_rate tie_history) (1 / 2)
     = 1648639149305271 / 2 ^ 47"
  using tie_threshold
  by (simp_all add: mean_of_hourly_means_def tie_history_hours tie_history_means tie_values)


lemma tie_history_low_hours: "low_traffic_hours_of py_sum_left_to_right tie_history = Some [3]"
proof -
  have ne: "tie_history \<noteq> []" by (simp add: tie_history_def)
  from low_traffic_hours_iff [OF ne, of py_sum_left_to_right] obtain hs where
    hs: "low_traffic_hours_of py_sum_left_to_right tie_history = Some hs" "distinct hs" and
    iff: "\<And>h. h \<in> set hs \<longleftrightarrow>
           h \<in> hours_with_data tie_history
           \<and> hourly_mean py_sum_left_to_right cpu_utilization tie_history h
               < fmul (mean_of_hourly_means py_sum_left_to_right cpu_utilization
                         tie_history) 0.5
           \<and> hourly_mean py_sum_left_to_right request_rate tie_history h
               < fmul (mean_of_hourly_means py_sum_left_to_right request_rate
                         tie_history) 0.5"
    by blast
  have "3 \<in> set hs"
    unfolding iff
    by (simp add: tie_history_hours tie_history_means tie_values tie_history_thresholds)
  moreover have "h \<in> set hs \<Longrightarrow> h = 3" for h
  proof -
    assume "h \<in> set hs"
    then have h: "h \<in> hours_with_data tie_history"
      and c: "hourly_mean py_sum_left_to_right cpu_utilization tie_history h
               < fmul (mean_of_hourly_means py_sum_left_to_right cpu_utilization
                         tie_history) 0.5"
      unfolding iff by simp_all
    from h have "h = 3 \<or> h = 9" by (simp add: tie_history_hours)
    moreover have "h \<noteq> 9"
      using c by (auto simp add: tie_history_means tie_values tie_history_thresholds)
    ultimately show "h = 3" by simp
  qed
  ultimately have "set hs = {3}" by blast
  with hs(2) have "hs = [3]" by (rule distinct_set_singleton)
  then show ?thesis using hs(1) by simp
qed

text \<open>
  With 42 pods and cpu 85 the product is the double \<open>50.99999999999999\<close> and the target
  is 50.
\<close>

lemma large_pool_schedule:
  "schedule_targets py_sum_left_to_right large_pool_history 1 100 = Some [(''09:00'', 50)]"
proof -
  let ?st = "hour_stats_of py_sum_left_to_right [sample 85 300 42]"
  have ne: "large_pool_history \<noteq> []" by (simp add: large_pool_history_def)
  have g: "group_by hour large_pool_history = [(9, [sample 85 300 42])]"
    by (simp add: group_by_def large_pool_history_def at_hour_def)
  have hs: "hourly_stats py_sum_left_to_right large_pool_history = [(9, ?st)]"
    by (simp add: hourly_stats_def g)
  have c: "cpu ?st = 85" "rps ?st = 300" "memory ?st = 40" "avg_pods ?st = 42"
    by (simp_all add: hour_stats_of_def sample_def double_eval)
  have a: "float_mean py_sum_left_to_right [85] = 85"
          "float_mean py_sum_left_to_right [300] = 300"
    by (simp_all add: double_eval)
  have t: "fmul 85 (3 / 2) = 255 / 2" "fmul 300 (3 / 2) = 450" "fmul 85 (1 / 2) = 85 / 2"
          "fmul 300 (1 / 2) = 150"
    by (simp_all add: double_eval)
  have p: "identify_peak_hours py_sum_left_to_right [(9, ?st)] = []"
    by (simp add: identify_peak_hours_def c a t)
  have l: "identify_low_hours py_sum_left_to_right [(9, ?st)] = []"
    by (simp add: identify_low_hours_def c a t)
  have f: "format_02d 9 = ''09''" "str_nat 9 = ''9''"
    by (simp_all add: format_02d_def str_nat.simps digit_char_def)
  have r: "recommended_pods_for ?st 1 100 = 50"
    using pods_product_42_at_cpu_85 by (simp add: recommended_pods_for_def c)
  show ?thesis
    by (simp add: schedule_targets_def generate_schedule_def
        analyze_patterns_nonempty [OF ne] analysis_of_def
        hs p l hour_entries_def r low_traffic_entries_def
        ScalingSchedule_init_def add_entry_def f Let_def)
qed

text \<open>
  In \<open>peak_tie_history\<close> the cpu mean of hour 10 is the double
  \<open>50.333333333333336\<close> and 1.5 times the mean of the hourly means is the double
  \<open>50.33333333333333\<close>: hour 10 is a peak hour.
\<close>

lemma peak_tie_hours: "hours_in_order peak_tie_history = [8, 9, 10]"
  by (simp add: history_eval peak_tie_history_def)

lemma peak_tie_groups:
  "snapshots_at 8 peak_tie_history = [sample 25 100 3, sample 25 100 3, sample 25 100 3]"
  "snapshots_at 9 peak_tie_history = [sample 25 100 3, sample 25 100 3, sample 26 100 3]"
  "snapshots_at 10 peak_tie_history = [sample 50 100 3, sample 50 100 3, sample 51 100 3]"
  by (simp_all add: snapshots_at_def group_of_def peak_tie_history_def at_hour_def)

lemma peak_tie_means:
  "float_mean py_sum_left_to_right [25, 25, 25] = 25"
  "float_mean py_sum_left_to_right [25, 25, 26] = 7130699410003285 / 2 ^ 48"
  "float_mean py_sum_left_to_right [50, 50, 51] = 7083786913884843 / 2 ^ 47"
  "float_mean py_sum_left_to_right [100, 100, 100] = 100"
  by (simp_all add: double_eval)

lemma peak_tie_thresholds:
  "fmul (float_mean py_sum_left_to_right
           [25, 7130699410003285 / 2 ^ 48, 7083786913884843 / 2 ^ 47]) (3 / 2)
     = 3541893456942421 / 2 ^ 46"
  "fmul 100 (3 / 2) = 150"
  by (simp_all add: double_eval)

lemma peak_tie_peak_hours:
  "map peak_hour_of (identify_peak_hours py_sum_left_to_right
      (hourly_stats py_sum_left_to_right peak_tie_history)) = [10]"
proof -
  have hs: "hourly_stats py_sum_left_to_right peak_tie_history =
      [(8, hour_stats_of py_sum_left_to_right (snapshots_at 8 peak_tie_history)),
       (9, hour_stats_of py_sum_left_to_right (snapshots_at 9 peak_tie_history)),
       (10, hour_stats_of py_sum_left_to_right (snapshots_at 10 peak_tie_history))]"
    by (simp add: hourly_stats_eq_map peak_tie_hours)
  have c: "cpu (hour_stats_of py_sum_left_to_right (snapshots_at 8 peak_tie_history)) = 25"
    "cpu (hour_stats_of py_sum_left_to_right (snapshots_at 9 peak_tie_history))
       = 7130699410003285 / 2 ^ 48"
    "cpu (hour_stats_of py_sum_left_to_right (snapshots_at 10 peak_tie_history))
       = 7083786913884843 / 2 ^ 47"
    "rps (hour_stats_of py_sum_left_to_right (snapshots_at 8 peak_tie_history)) = 100"
    "rps (hour_stats_of py_sum_left_to_right (snapshots_at 9 peak_tie_history)) = 100"
    "rps (hour_stats_of py_sum_left_to_right (snapshots_at 10 peak_tie_history)) = 100"
    using peak_tie_means
    by (simp_all add: hour_stats_of_def peak_tie_groups sample_def)
  show ?thesis
    using peak_tie_thresholds peak_tie_means(4)
    by (simp add: hs identify_peak_hours_def c Let_def)
qed

text \<open>The schedule is produced for every history.\<close>

lemma generate_schedule_total:
  "\<exists>sched. generate_schedule py_sum history mn mx = Inr sched"
proof (cases history)
  case Nil
  then show ?thesis
    by (simp add: analyze_patterns_def generate_schedule_def)
next
  case (Cons p rest)
  obtain ts m where "p = (ts, m)" by (cases p)
  then have "hour ts \<in> hours_with_data history"
    unfolding hours_with_data_def using Cons by force
  then have "snapshots_at (hour ts) history \<noteq> []"
    by (simp add: snapshots_at_nonempty_iff)
  from generate_schedule_standard_entry [OF this] show ?thesis by blast
qed

text \<open>
  Claim C9.  For the empty history \<open>analyze_patterns\<close> returns the dictionary with the
  key \<open>error\<close>, and \<open>generate_schedule\<close> returns the schedule named
  \<open>error-schedule\<close> without entries; neither raises.
\<close>

theorem empty_history_results:
  "analyze_patterns py_sum [] = Inr (PatternError ''No metrics history provided'')
   \<and> generate_schedule py_sum [] min_pods max_pods
       = Inr \<lparr> schedule_name = ''error-schedule'', description = [],
               schedule_entries = [] \<rparr>"
  by (simp add: analyze_patterns_def generate_schedule_def ScalingSchedule_init_def)

end
